theory Spec2Isabelle
  imports Main "HOL-Library.Log_Nat" "HOL-Library.Sublist"
begin

section \<open>Python values used by the two dashboards\<close>

subsection \<open>Exceptions\<close>

text \<open>
  The exceptions the two callbacks can raise. A computation that may raise returns
  \<open>pyerror + 'a\<close>, with \<open>Inl\<close> for the exception; \<open>pybind\<close> sequences two statements,
  so that the first exception raised is the one that propagates.
\<close>

datatype pyerror =
    IndexError | KeyError | ValueError | ZeroDivisionError
  | OverflowError | TypeError | AttributeError

definition pybind :: "pyerror + 'a \<Rightarrow> ('a \<Rightarrow> pyerror + 'b) \<Rightarrow> pyerror + 'b" where
  "pybind m f = (case m of Inl e \<Rightarrow> Inl e | Inr v \<Rightarrow> f v)"

subsection \<open>Floats: IEEE 754 binary64 with round-to-nearest, ties-to-even\<close>

text \<open>
  A Python \<open>float\<close> is a binary64 number. \<open>Fin q\<close> is the finite float whose exact value
  is the rational \<open>q\<close>; the two zeros are identified (Python compares \<open>-0.0 == 0.0\<close> as
  equal and both raise on division). Every arithmetic operation computes the exact
  rational result and rounds it with \<open>rnd\<close>: 53 significant bits, exponent of the last
  place at least \<open>-1074\<close> (subnormals), overflow to infinity when the rounded magnitude
  reaches \<open>2 ^ 1024\<close>.
\<close>

datatype pyfloat = Fin rat | PInf | NInf | NaN

definition pow2 :: "int \<Rightarrow> rat" where
  "pow2 e = (if 0 \<le> e then 2 ^ nat e else 1 / 2 ^ nat (- e))"

definition binexp :: "rat \<Rightarrow> int" where
  \<comment> \<open>for \<open>q \<noteq> 0\<close>: the \<open>k\<close> with \<open>2 ^ k \<le> \<bar>q\<bar> < 2 ^ (k + 1)\<close>\<close>
  "binexp q = (if 1 \<le> \<bar>q\<bar> then bitlen \<lfloor>\<bar>q\<bar>\<rfloor> - 1 else - bitlen (\<lceil>1 / \<bar>q\<bar>\<rceil> - 1))"

definition round_half_even :: "rat \<Rightarrow> int" where
  "round_half_even s = (let m = \<lfloor>s\<rfloor>; f = s - of_int m in
       if f < 1 / 2 then m else if 1 / 2 < f then m + 1 else if even m then m else m + 1)"

definition rnd :: "rat \<Rightarrow> pyfloat" where
  \<comment> \<open>\<open>m\<close> has at most 54 bits; \<open>\<bar>m\<bar> * 2 ^ e\<close> reaches \<open>2 ^ 1024\<close> iff \<open>bitlen \<bar>m\<bar> + e > 1024\<close>\<close>
  "rnd q = (if q = 0 then Fin 0 else
     let e = max (binexp q - 52) (- 1074);
         m = round_half_even (q / pow2 e)
     in if 1024 < bitlen \<bar>m\<bar> + e then (if 0 < q then PInf else NInf)
        else Fin (of_int m * pow2 e))"

definition is_double :: "rat \<Rightarrow> bool" where
  \<comment> \<open>the rationals that are binary64 values: rounding leaves them unchanged\<close>
  "is_double q = (rnd q = Fin q)"

fun fneg :: "pyfloat \<Rightarrow> pyfloat" where
  "fneg (Fin a) = Fin (- a)"
| "fneg PInf = NInf"
| "fneg NInf = PInf"
| "fneg NaN = NaN"

fun fadd :: "pyfloat \<Rightarrow> pyfloat \<Rightarrow> pyfloat" where
  "fadd NaN _ = NaN"
| "fadd _ NaN = NaN"
| "fadd (Fin a) (Fin b) = rnd (a + b)"
| "fadd PInf NInf = NaN"
| "fadd NInf PInf = NaN"
| "fadd PInf _ = PInf"
| "fadd NInf _ = NInf"
| "fadd (Fin a) y = y"

definition fsub :: "pyfloat \<Rightarrow> pyfloat \<Rightarrow> pyfloat" where
  "fsub x y = fadd x (fneg y)"

fun fmul :: "pyfloat \<Rightarrow> pyfloat \<Rightarrow> pyfloat" where
  "fmul NaN _ = NaN"
| "fmul _ NaN = NaN"
| "fmul (Fin a) (Fin b) = rnd (a * b)"
| "fmul (Fin a) PInf = (if a = 0 then NaN else if 0 < a then PInf else NInf)"
| "fmul (Fin a) NInf = (if a = 0 then NaN else if 0 < a then NInf else PInf)"
| "fmul PInf (Fin b) = (if b = 0 then NaN else if 0 < b then PInf else NInf)"
| "fmul NInf (Fin b) = (if b = 0 then NaN else if 0 < b then NInf else PInf)"
| "fmul PInf PInf = PInf"
| "fmul NInf NInf = PInf"
| "fmul PInf NInf = NInf"
| "fmul NInf PInf = NInf"

fun fquot :: "pyfloat \<Rightarrow> pyfloat \<Rightarrow> pyfloat" where
  \<comment> \<open>the IEEE quotient for a divisor other than zero\<close>
  "fquot NaN _ = NaN"
| "fquot _ NaN = NaN"
| "fquot (Fin a) (Fin b) = rnd (a / b)"
| "fquot (Fin a) _ = Fin 0"
| "fquot PInf (Fin b) = (if 0 < b then PInf else NInf)"
| "fquot NInf (Fin b) = (if 0 < b then NInf else PInf)"
| "fquot _ _ = NaN"

definition py_truediv :: "pyfloat \<Rightarrow> pyfloat \<Rightarrow> pyerror + pyfloat" where
  \<comment> \<open>Python's \<open>x / y\<close> on floats: a zero divisor raises, whatever the dividend\<close>
  "py_truediv x y = (if y = Fin 0 then Inl ZeroDivisionError else Inr (fquot x y))"

fun flt :: "pyfloat \<Rightarrow> pyfloat \<Rightarrow> bool" where
  \<comment> \<open>Python's \<open>x < y\<close>: every comparison with NaN is false\<close>
  "flt NaN _ = False"
| "flt _ NaN = False"
| "flt (Fin a) (Fin b) = (a < b)"
| "flt NInf NInf = False"
| "flt NInf _ = True"
| "flt PInf _ = False"
| "flt (Fin a) PInf = True"
| "flt (Fin a) NInf = False"

definition fgt :: "pyfloat \<Rightarrow> pyfloat \<Rightarrow> bool" where
  "fgt x y = flt y x"

definition fle :: "pyfloat \<Rightarrow> pyfloat \<Rightarrow> bool" where
  \<comment> \<open>Python's \<open>x <= y\<close>\<close>
  "fle x y = (x \<noteq> NaN \<and> y \<noteq> NaN \<and> (x = y \<or> flt x y))"

definition py_min :: "pyfloat \<Rightarrow> pyfloat \<Rightarrow> pyfloat" where
  \<comment> \<open>\<open>min(a, b)\<close> keeps the first argument unless the second is smaller\<close>
  "py_min a b = (if flt b a then b else a)"

definition py_max :: "pyfloat \<Rightarrow> pyfloat \<Rightarrow> pyfloat" where
  \<comment> \<open>\<open>max(a, b)\<close> keeps the first argument unless the second is greater\<close>
  "py_max a b = (if fgt b a then b else a)"

subsection \<open>Strings\<close>

text \<open>
  The district names are modelled as \<open>string\<close>s whose characters are the code points
  below 256 (U+0000 to U+00FF). On these \<open>str.lower\<close> adds 32 to \<open>A\<close>..\<open>Z\<close> and to the
  capital letters 192..214 and 216..222 and leaves every other character alone, the
  sharp s (223) included, and \<open>str.strip()\<close> removes from both ends the characters for
  which \<open>str.isspace\<close> holds. Names with characters from U+0100 on are outside the
  model: there \<open>str.lower\<close> follows the Unicode tables, depends on the context (the
  final sigma) and can change the length, and nothing is stated about such names.
\<close>

definition isspace :: "char \<Rightarrow> bool" where
  "isspace c = (of_char c \<in> {9, 10, 11, 12, 13, 28, 29, 30, 31, 32, 133, 160 :: nat})"

definition lower_char :: "char \<Rightarrow> char" where
  "lower_char c =
     (let n = of_char c :: nat
      in if (65 \<le> n \<and> n \<le> 90) \<or> (192 \<le> n \<and> n \<le> 214) \<or> (216 \<le> n \<and> n \<le> 222)
         then char_of (n + 32) else c)"

definition str_lower :: "string \<Rightarrow> string" where
  "str_lower s = map lower_char s"

definition str_strip :: "string \<Rightarrow> string" where
  "str_strip s = rev (dropWhile isspace (rev (dropWhile isspace s)))"

text \<open>
  Two characters are the same letter when they are equal or one is the lower-case form
  of the other; two names differ only in letter case when they are so character by
  character (\<open>list_all2 same_letter\<close>).
\<close>

definition same_letter :: "char \<Rightarrow> char \<Rightarrow> bool" where
  "same_letter c d = (c = d \<or> lower_char c = d \<or> lower_char d = c)"

subsection \<open>The click event: a JSON value\<close>

text \<open>
  Dash hands the map's \<open>clickData\<close> property to the callback as \<open>None\<close> or as the
  decoded JSON of the click. The operations below are Python's on such values, with
  the exception each raises on a value of the wrong type.
\<close>

datatype json =
    JNull | JBool bool | JNum rat | JStr string
  | JArr "json list" | JObj "(string \<times> json) list"

fun truthy :: "json \<Rightarrow> bool" where
  "truthy JNull = False"
| "truthy (JBool b) = b"
| "truthy (JNum n) = (n \<noteq> 0)"
| "truthy (JStr s) = (s \<noteq> [])"
| "truthy (JArr xs) = (xs \<noteq> [])"
| "truthy (JObj kvs) = (kvs \<noteq> [])"

fun py_in :: "string \<Rightarrow> json \<Rightarrow> pyerror + bool" where
  \<comment> \<open>\<open>k in v\<close> for a string \<open>k\<close>: a key of a dict, an element of a list, a substring\<close>
  "py_in k (JObj kvs) = Inr (k \<in> fst ` set kvs)"
| "py_in k (JArr xs) = Inr (JStr k \<in> set xs)"
| "py_in k (JStr s) = Inr (sublist k s)"
| "py_in k _ = Inl TypeError"

fun getitem_key :: "json \<Rightarrow> string \<Rightarrow> pyerror + json" where
  \<comment> \<open>\<open>v[k]\<close> for a string \<open>k\<close>\<close>
  "getitem_key (JObj kvs) k = (case map_of kvs k of None \<Rightarrow> Inl KeyError | Some v \<Rightarrow> Inr v)"
| "getitem_key _ k = Inl TypeError"

fun getitem_0 :: "json \<Rightarrow> pyerror + json" where
  \<comment> \<open>\<open>v[0]\<close>; the keys of a decoded JSON object are strings, so \<open>0\<close> is never one\<close>
  "getitem_0 (JArr xs) = (case xs of [] \<Rightarrow> Inl IndexError | x # _ \<Rightarrow> Inr x)"
| "getitem_0 (JStr s) = (case s of [] \<Rightarrow> Inl IndexError | c # _ \<Rightarrow> Inr (JStr [c]))"
| "getitem_0 (JObj kvs) = Inl KeyError"
| "getitem_0 _ = Inl TypeError"

subsection \<open>The table\<close>

text \<open>
  A cell of the spreadsheet as pandas delivers it. \<open>PyNone\<close> is \<open>None\<close>. \<open>Number x\<close> is
  the number \<open>x\<close>, with \<open>Number NaN\<close> the marker pandas puts in an empty cell and in a
  cell whose text is one of its tokens for a missing value (\<open>N/A\<close>, \<open>NaN\<close>, \<open>null\<close>).
  A text that pandas keeps is \<open>NumericText x\<close> when \<open>float\<close> converts it to \<open>x\<close>
  (\<open>"12.5"\<close>; \<open>"NAN"\<close> with \<open>x = NaN\<close>) and \<open>NonNumeric s\<close> when \<open>float\<close> rejects it
  (\<open>"unknown"\<close>). \<open>pd.notna\<close> is false on \<open>None\<close> and on the float NaN only. The
  District column holds a \<open>pyval\<close>; so does the dropdown's value. A row is a pandas
  Series: the District value and the other columns by name; all rows of a table have
  the same columns. The table \<open>df\<close> is the list of rows left by the filter at start-up.
\<close>

datatype cell = PyNone | Number pyfloat | NumericText pyfloat | NonNumeric string

datatype pyval = VNone | VNum pyfloat | VStr string

record row =
  district :: pyval
  cells :: "string \<Rightarrow> cell option"

type_synonym table = "row list"

definition pd_notna :: "cell \<Rightarrow> bool" where
  "pd_notna val = (val \<noteq> PyNone \<and> val \<noteq> Number NaN)"

fun py_float :: "cell \<Rightarrow> pyerror + pyfloat" where
  "py_float (Number x) = Inr x"
| "py_float (NumericText x) = Inr x"
| "py_float (NonNumeric s) = Inl ValueError"
| "py_float PyNone = Inl TypeError"

definition safe :: "cell \<Rightarrow> pyerror + pyfloat" where
  \<comment> \<open>\<open>return float(val) if pd.notna(val) else 0.0\<close>, the same in both files\<close>
  "safe val = (if pd_notna val then py_float val else Inr (Fin 0))"

definition row_get :: "row \<Rightarrow> string \<Rightarrow> cell \<Rightarrow> cell" where
  \<comment> \<open>\<open>row.get(col, default)\<close>\<close>
  "row_get r col d = (case cells r col of None \<Rightarrow> d | Some v \<Rightarrow> v)"

definition row_item :: "row \<Rightarrow> string \<Rightarrow> pyerror + cell" where
  \<comment> \<open>\<open>row[col]\<close>\<close>
  "row_item r col = (case cells r col of None \<Rightarrow> Inl KeyError | Some v \<Rightarrow> Inr v)"

fun py_int :: "pyfloat \<Rightarrow> pyerror + int" where
  \<comment> \<open>\<open>int(x)\<close> truncates towards zero\<close>
  "py_int (Fin q) = Inr (if 0 \<le> q then \<lfloor>q\<rfloor> else \<lceil>q\<rceil>)"
| "py_int NaN = Inl ValueError"
| "py_int _ = Inl OverflowError"

subsection \<open>What the callbacks return\<close>

text \<open>
  Texts built by f-strings keep their parts: \<open>Fixed n x\<close> is \<open>x\<close> printed with \<open>n\<close>
  decimals, \<open>Grouped i\<close> an integer printed with thousands separators. A figure keeps
  its title, its traces and the upper end of its y-axis range where the code sets one;
  colours, fonts and margins are left out.
\<close>

datatype piece = Lit string | Fixed nat pyfloat | Grouped int

type_synonym ftext = "piece list"

datatype yval = Plain pyfloat | Rounded nat pyfloat

datatype trace =
    Scatter "string list" "yval list"
  | Bar ftext string yval
  | Pie "ftext list" "pyfloat list"

datatype figure = Figure string "trace list" "pyfloat option"

datatype html = Div string | Card string ftext | Graph figure

definition empty_figure :: "string \<Rightarrow> figure" where
  "empty_figure title = Figure title [] None"

section \<open>The Metrics Deriver\<close>

subsection \<open>Percent processed (app.py line 67, map dashboard line 116)\<close>

text \<open>
  Both files hold the same expression:
  \<^verbatim>\<open>processed_percent = (sw_proc / sw_gen * 100) if sw_gen > 0 else 0\<close>
\<close>

definition processed_percent :: "pyfloat \<Rightarrow> pyfloat \<Rightarrow> pyerror + pyfloat" where
  "processed_percent sw_proc sw_gen =
     (if fgt sw_gen (Fin 0)
      then pybind (py_truediv sw_proc sw_gen) (\<lambda>q. Inr (fmul q (Fin 100)))
      else Inr (Fin 0))"

subsection \<open>The processed-versus-gap pie of the map dashboard (lines 163 to 165)\<close>

definition proc_pie :: "pyfloat \<Rightarrow> pyfloat \<Rightarrow> pyfloat" where
  "proc_pie sw_proc sw_gen = py_min sw_proc sw_gen"

definition gap_pie :: "pyfloat \<Rightarrow> pyfloat \<Rightarrow> pyfloat" where
  "gap_pie sw_proc sw_gen = py_max (Fin 0) (fsub sw_gen (proc_pie sw_proc sw_gen))"

definition proc_label :: "pyfloat \<Rightarrow> pyfloat \<Rightarrow> string" where
  "proc_label sw_proc sw_gen =
     (if fgt sw_proc sw_gen then ''Processed (100%)'' else ''Processed'')"

subsection \<open>The waste composition of the map dashboard (lines 177 to 180)\<close>

definition other_waste :: "pyfloat \<Rightarrow> pyfloat \<Rightarrow> pyfloat \<Rightarrow> pyfloat \<Rightarrow> pyfloat" where
  "other_waste sw_gen pw cd ew = py_max (Fin 0) (fsub sw_gen (fadd (fadd pw cd) ew))"

definition waste_composition ::
  "row \<Rightarrow> pyfloat \<Rightarrow> pyerror + (pyfloat \<times> pyfloat \<times> pyfloat \<times> pyfloat)" where
  "waste_composition r sw_gen =
     pybind (safe (row_get r ''Sum of Estimated PW Generation in TPD'' (Number (Fin 0)))) (\<lambda>pw.
     pybind (safe (row_get r ''Sum of C&D Waste Generation in TPD - 2025'' (Number (Fin 0)))) (\<lambda>cd.
     pybind (safe (row_get r ''Sum of e-waste Generation (TPA)'' (Number (Fin 0)))) (\<lambda>tpa.
     pybind (py_truediv tpa (Fin 365)) (\<lambda>ew.
     Inr (pw, cd, ew, other_waste sw_gen pw cd ew)))))"

section \<open>The Selection-to-View Binder\<close>

subsection \<open>The map dashboard: \<open>update_dashboard(clickData)\<close>\<close>

type_synonym map_payload = "html list \<times> figure \<times> html list \<times> figure"

definition click_prompt :: map_payload where
  \<comment> \<open>the return of lines 100 and 101\<close>
  "click_prompt =
     ([Div ''Click a district on the map''], empty_figure ''Population Forecast'',
      [], empty_figure ''Waste Composition'')"

definition no_data :: map_payload where
  \<comment> \<open>the return of lines 107 and 108\<close>
  "no_data =
     ([Div ''No data for selected district''], empty_figure ''Population Forecast'',
      [], empty_figure ''Waste Composition'')"

fun str_receiver :: "json \<Rightarrow> pyerror + string" where
  \<comment> \<open>the receiver of \<open>.lower()\<close>: only a \<open>str\<close> has the method\<close>
  "str_receiver (JStr s) = Inr s"
| "str_receiver _ = Inl AttributeError"

definition match_row :: "table \<Rightarrow> string \<Rightarrow> table" where
  \<comment> \<open>line 104; \<open>.str.lower().str.strip()\<close> gives NaN, equal to nothing, on a value that is no text\<close>
  "match_row df district_name =
     filter (\<lambda>r. case district r of
                   VStr s \<Rightarrow> str_strip (str_lower s) = str_strip (str_lower district_name)
                 | _ \<Rightarrow> False) df"

definition map_district_view :: "row \<Rightarrow> string \<Rightarrow> pyerror + map_payload" where
  \<comment> \<open>lines 112 to 201, for the matched row\<close>
  "map_district_view r district_name =
     pybind (safe (row_get r ''Sum of Census 2011 Population'' (Number (Fin 0)))) (\<lambda>census_pop.
     pybind (safe (row_get r ''Sum of SW_Generation (TPD)'' (Number (Fin 0)))) (\<lambda>sw_gen.
     pybind (safe (row_get r ''Sum of SW_Processed_ (TPD)'' (Number (Fin 0)))) (\<lambda>sw_proc.
     pybind (safe (row_get r ''Sum of SW Collection Gap (in TPD)'' (Number (Fin 0)))) (\<lambda>sw_gap.
     pybind (processed_percent sw_proc sw_gen) (\<lambda>percent.
     pybind (safe (row_get r ''Sum of Sewage Generation (in MLD)'' (Number (Fin 0)))) (\<lambda>sewage_gen.
     pybind (safe (row_get r ''Average of Decadal Grouth Rate in % (During 2001-2011)'' PyNone)) (\<lambda>growth_rate.
     pybind (py_int census_pop) (\<lambda>pop.
     pybind (safe (row_get r ''Sum of Projected Population by 2025'' (Number (Fin 0)))) (\<lambda>pop_2025.
     pybind (safe (row_get r ''Sum of Projected Population by 2030'' (Number (Fin 0)))) (\<lambda>pop_2030.
     pybind (waste_composition r sw_gen) (\<lambda>(pw, cd, ew, other).
     Inr ([Card ''Census 2011 Pop'' [Grouped pop],
           Card ''SW Generated'' [Fixed 2 sw_gen, Lit '' TPD''],
           Card ''% Waste Processed'' [Fixed 1 percent, Lit ''%''],
           Card ''Sewage Gen (MLD)'' [Fixed 2 sewage_gen],
           Card ''Decadal Growth Rate'' [Fixed 2 (fmul growth_rate (Fin 100)), Lit ''%''],
           Card ''District'' [Lit district_name]],
          Figure ''Population Forecast''
            [Scatter [''2011'', ''2025'', ''2030'']
               [Rounded 3 census_pop, Rounded 2 pop_2025, Rounded 2 pop_2030]] None,
          [Graph (Figure ''Current Waste Metrics (TPD)''
             [Bar [Lit ''Generated: '', Fixed 2 sw_gen, Lit '' TPD''] ''Generated'' (Rounded 2 sw_gen),
              Bar [Lit ''Processed: '', Fixed 2 sw_proc, Lit '' TPD''] ''Processed'' (Rounded 2 sw_proc),
              Bar [Lit ''Gap: '', Fixed 2 sw_gap, Lit '' TPD''] ''Gap'' (Rounded 2 sw_gap)] None),
           Graph (Figure ''Processed vs Gap (TPD)''
             [Pie [[Lit (proc_label sw_proc sw_gen)], [Lit ''Gap'']]
                  [proc_pie sw_proc sw_gen, gap_pie sw_proc sw_gen]] None)],
          Figure ''Waste Composition (TPD)''
            [Pie [[Lit ''Plastic Waste: '', Fixed 2 pw, Lit '' TPD''],
                  [Lit ''C&D: '', Fixed 2 cd, Lit '' TPD''],
                  [Lit ''E-waste: '', Fixed 2 ew, Lit '' TPD''],
                  [Lit ''Other: '', Fixed 2 other, Lit '' TPD'']]
                 [pw, cd, ew, other]] None))))))))))))"

definition map_update_dashboard :: "table \<Rightarrow> json \<Rightarrow> pyerror + map_payload" where
  "map_update_dashboard df clickData =
     (if \<not> truthy clickData then Inr click_prompt
      else pybind (py_in ''points'' clickData) (\<lambda>has_points.
        if \<not> has_points then Inr click_prompt
        else
          pybind (getitem_key clickData ''points'') (\<lambda>points.
          pybind (getitem_0 points) (\<lambda>point.
          pybind (getitem_key point ''location'') (\<lambda>location.
          pybind (str_receiver location) (\<lambda>district_name.
            case match_row df district_name of
              [] \<Rightarrow> Inr no_data
            | r # _ \<Rightarrow> map_district_view r district_name))))))"

definition map_initial_clickData :: json where
  \<comment> \<open>the layout gives the map no \<open>clickData\<close>: the property starts as \<open>None\<close>\<close>
  "map_initial_clickData = JNull"

subsection \<open>The dropdown dashboard: \<open>update_dashboard(selected_district)\<close> of app.py\<close>

type_synonym app_payload = "html list \<times> figure \<times> html list \<times> html list"

datatype logline = CallbackError pyerror

definition val_eq :: "pyval \<Rightarrow> pyval \<Rightarrow> bool" where
  \<comment> \<open>the elementwise \<open>==\<close> of line 59: \<open>None\<close> and NaN equal nothing\<close>
  "val_eq a b =
     (case (a, b) of
        (VStr s, VStr t) \<Rightarrow> s = t
      | (VNum x, VNum y) \<Rightarrow> x = y \<and> x \<noteq> NaN
      | _ \<Rightarrow> False)"

definition iloc0 :: "table \<Rightarrow> pyerror + row" where
  "iloc0 rows = (case rows of [] \<Rightarrow> Inl IndexError | r # _ \<Rightarrow> Inr r)"

definition safe_item :: "row \<Rightarrow> string \<Rightarrow> pyerror + pyfloat" where
  \<comment> \<open>\<open>safe(row[col])\<close>\<close>
  "safe_item r col = pybind (row_item r col) safe"

definition app_district_view :: "table \<Rightarrow> pyval \<Rightarrow> pyerror + app_payload" where
  \<comment> \<open>the body of the \<open>try\<close>, lines 59 to 184\<close>
  "app_district_view df selected_district =
     pybind (iloc0 (filter (\<lambda>r. val_eq (district r) selected_district) df)) (\<lambda>r.
     pybind (safe_item r ''Sum of Census 2011 Population'') (\<lambda>census_pop.
     pybind (safe_item r ''Sum of SW_Generation (TPD)'') (\<lambda>sw_gen.
     pybind (safe_item r ''Sum of SW_Processed_ (TPD)'') (\<lambda>sw_proc.
     pybind (safe_item r ''Sum of SW Collection Gap (in TPD)'') (\<lambda>sw_gap.
     pybind (processed_percent sw_proc sw_gen) (\<lambda>percent.
     pybind (py_int census_pop) (\<lambda>pop.
     pybind (safe_item r ''Sum of Census 2011 Population'') (\<lambda>pop_2011.
     pybind (safe_item r ''Sum of Projected Population by 2025'') (\<lambda>pop_2025.
     pybind (safe_item r ''Sum of Projected Population by 2030'') (\<lambda>pop_2030.
     pybind (safe_item r ''Sum of SW_Generation (TPD)'') (\<lambda>curr_gen.
     pybind (safe_item r ''Sum of SW_Processed_ (TPD)'') (\<lambda>curr_proc.
     pybind (safe_item r ''Sum of SW Collection Gap (in TPD)'') (\<lambda>curr_gap.
     pybind (safe_item r ''Sum of SW_Generation (TPD)-2030'') (\<lambda>fut_gen.
     pybind (safe_item r ''Sum of SW_Processed_ (TPD)-2030'') (\<lambda>fut_proc.
     pybind (safe_item r ''Sum of SW Collection Gap (in TPD)-2030'') (\<lambda>fut_gap.
     let y_max = fmul (foldl py_max curr_gen [curr_proc, curr_gap, fut_gen, fut_proc, fut_gap])
                      (rnd (11 / 10))
     in Inr ([Card ''Census 2011 Pop'' [Grouped pop],
              Card ''SW Generated'' [Fixed 2 sw_gen, Lit '' TPD''],
              Card ''% Waste Processed'' [Fixed 1 percent, Lit ''%''],
              Card ''Gap in Collection'' [Fixed 2 sw_gap, Lit '' TPD'']],
             Figure ''Population Forecast''
               [Scatter [''2011'', ''2025'', ''2030'']
                  [Plain pop_2011, Plain pop_2025, Plain pop_2030]] None,
             [Graph (Figure ''Current Waste Metrics (TPD)''
                [Bar [Lit ''Generated''] ''Current'' (Plain curr_gen),
                 Bar [Lit ''Processed''] ''Current'' (Plain curr_proc),
                 Bar [Lit ''Gap''] ''Current'' (Plain curr_gap)] (Some y_max)),
              Graph (Figure ''2030 Waste Metrics (TPD)''
                [Bar [Lit ''Generated''] ''2030'' (Plain fut_gen),
                 Bar [Lit ''Processed''] ''2030'' (Plain fut_proc),
                 Bar [Lit ''Gap''] ''2030'' (Plain fut_gap)] (Some y_max))],
             [Graph (Figure ''Current Waste Processed vs Gap''
                [Pie [[Lit ''Processed''], [Lit ''Gap'']] [curr_proc, curr_gap]] None),
              Graph (Figure ''2030 Waste Processed vs Gap''
                [Pie [[Lit ''Processed''], [Lit ''Gap'']] [fut_proc, fut_gap]] None)]
            )))))))))))))))))"

definition error_payload :: app_payload where
  \<comment> \<open>the return of line 188\<close>
  "error_payload = ([Div ''Error loading data''], Figure [] [] None, [], [])"

definition app_update_dashboard :: "table \<Rightarrow> pyval \<Rightarrow> logline list \<times> app_payload" where
  \<comment> \<open>\<open>try: ... except Exception as e: print(..., e); return ...\<close>, the printed lines first\<close>
  "app_update_dashboard df selected_district =
     (case app_district_view df selected_district of
        Inr payload \<Rightarrow> ([], payload)
      | Inl e \<Rightarrow> ([CallbackError e], error_payload))"

definition app_initial_value :: "table \<Rightarrow> pyerror + pyval" where
  \<comment> \<open>the dropdown's \<open>value=df["District"].iloc[0]\<close> of line 32\<close>
  "app_initial_value df = pybind (iloc0 df) (\<lambda>r. Inr (district r))"

subsection \<open>The columns each callback reads\<close>

text \<open>
  In the order of the reads: lines 112 to 118, 137, 138 and 177 to 179 of the map
  dashboard, lines 62 to 65, 95, 96 and 117 to 119 of app.py.
\<close>

definition map_columns :: "string list" where
  "map_columns =
     [''Sum of Census 2011 Population'',
      ''Sum of SW_Generation (TPD)'',
      ''Sum of SW_Processed_ (TPD)'',
      ''Sum of SW Collection Gap (in TPD)'',
      ''Sum of Sewage Generation (in MLD)'',
      ''Average of Decadal Grouth Rate in % (During 2001-2011)'',
      ''Sum of Projected Population by 2025'',
      ''Sum of Projected Population by 2030'',
      ''Sum of Estimated PW Generation in TPD'',
      ''Sum of C&D Waste Generation in TPD - 2025'',
      ''Sum of e-waste Generation (TPA)'']"

definition app_columns :: "string list" where
  "app_columns =
     [''Sum of Census 2011 Population'',
      ''Sum of SW_Generation (TPD)'',
      ''Sum of SW_Processed_ (TPD)'',
      ''Sum of SW Collection Gap (in TPD)'',
      ''Sum of Projected Population by 2025'',
      ''Sum of Projected Population by 2030'',
      ''Sum of SW_Generation (TPD)-2030'',
      ''Sum of SW_Processed_ (TPD)-2030'',
      ''Sum of SW Collection Gap (in TPD)-2030'']"

section \<open>Sample data for the examples\<close>

text \<open>
  A three-row table over the fourteen columns the two dashboards read. Bhopal has
  processed above generated and an empty cell for 2030; Indore's census cell holds the
  text \<open>unknown\<close>; Ujjain has a number in every cell. Three more rows over the same
  columns serve as one-row tables: a district that generates no waste, one that
  processes none and has a sharp s in its name, and one with the text \<open>unknown\<close> in
  the last column each callback reads. \<open>click_on name\<close> is the click event Dash sends
  for the district \<open>name\<close>, reduced to the part the callback reads.
\<close>

definition columns :: "string list" where
  "columns =
     [''Sum of Census 2011 Population'',
      ''Sum of SW_Generation (TPD)'',
      ''Sum of SW_Processed_ (TPD)'',
      ''Sum of SW Collection Gap (in TPD)'',
      ''Sum of Sewage Generation (in MLD)'',
      ''Average of Decadal Grouth Rate in % (During 2001-2011)'',
      ''Sum of Projected Population by 2025'',
      ''Sum of Projected Population by 2030'',
      ''Sum of Estimated PW Generation in TPD'',
      ''Sum of C&D Waste Generation in TPD - 2025'',
      ''Sum of e-waste Generation (TPA)'',
      ''Sum of SW_Generation (TPD)-2030'',
      ''Sum of SW_Processed_ (TPD)-2030'',
      ''Sum of SW Collection Gap (in TPD)-2030'']"

definition make_row :: "string \<Rightarrow> cell list \<Rightarrow> row" where
  "make_row name vals = \<lparr>district = VStr name, cells = map_of (zip columns vals)\<rparr>"

definition bhopal :: row where
  "bhopal = make_row ''Bhopal''
     [Number (Fin 2371061), Number (Fin 100), Number (Fin 120), Number (Fin 0),
      Number (Fin 250), Number (Fin (1 / 4)), Number (Fin 3000000), Number NaN,
      Number (Fin 10), Number (Fin 20), Number (Fin 3650),
      Number (Fin 130), Number (Fin 110), Number (Fin 20)]"

definition indore :: row where
  "indore = make_row ''Indore''
     [NonNumeric ''unknown'', Number (Fin 10), Number (Fin 0), Number (Fin 10),
      Number (Fin 300), Number (Fin (1 / 2)), Number (Fin 3500000), Number (Fin 3800000),
      Number (Fin 1), Number (Fin 2), Number (Fin 730),
      Number (Fin 15), Number (Fin 5), Number (Fin 10)]"

definition ujjain :: row where
  "ujjain = make_row ''Ujjain''
     [Number (Fin 1986864), Number (Fin 200), Number (Fin 50), Number (Fin 150),
      Number (Fin 120), Number (Fin (1 / 8)), Number (Fin 2400000), Number (Fin 2600000),
      Number (Fin 12), Number (Fin 30), Number (Fin 1460),
      Number (Fin 260), Number (Fin 65), Number (Fin 195)]"

definition strasse :: row where
  \<comment> \<open>a district whose name is Strasse written with the sharp s (code point 223); it processes nothing\<close>
  "strasse = make_row (''Stra'' @ [CHR 0xDF] @ ''e'')
     [Number (Fin 1000), Number (Fin 10), Number (Fin 0), Number (Fin 10),
      Number (Fin 1), Number (Fin (1 / 4)), Number (Fin 1100), Number (Fin 1200),
      Number (Fin 1), Number (Fin 1), Number (Fin 365),
      Number (Fin 12), Number (Fin 6), Number (Fin 6)]"

definition zero_gen :: row where
  \<comment> \<open>a district that generates no waste\<close>
  "zero_gen = make_row ''Dewas''
     [Number (Fin 500000), Number (Fin 0), Number (Fin 7), Number (Fin 0),
      Number (Fin 40), Number (Fin (1 / 4)), Number (Fin 600000), Number (Fin 650000),
      Number (Fin 0), Number (Fin 0), Number (Fin 0),
      Number (Fin 0), Number (Fin 0), Number (Fin 0)]"

definition sagar :: row where
  \<comment> \<open>a district with the text \<open>unknown\<close> in the last column each callback reads\<close>
  "sagar = make_row ''Sagar''
     [Number (Fin 2378458), Number (Fin 90), Number (Fin 45), Number (Fin 45),
      Number (Fin 80), Number (Fin (1 / 4)), Number (Fin 2700000), Number (Fin 2900000),
      Number (Fin 5), Number (Fin 9), NonNumeric ''unknown'',
      Number (Fin 110), Number (Fin 60), NonNumeric ''unknown'']"

definition sample_df :: table where
  "sample_df = [bhopal, indore, ujjain]"

definition click_on :: "string \<Rightarrow> json" where
  "click_on name = JObj [(''points'', JArr [JObj [(''location'', JStr name)]])]"

section \<open>Properties\<close>

lemma fgt_zero_not_zero: "fgt g (Fin 0) \<Longrightarrow> g \<noteq> Fin 0"
  by (auto simp: fgt_def)

subsection \<open>Rounding keeps the sign\<close>

lemma pow2_pos: "0 < pow2 e"
  by (simp add: pow2_def)

lemma round_half_even_nonneg: "0 \<le> s \<Longrightarrow> 0 \<le> round_half_even s"
  by (auto simp: round_half_even_def Let_def)

lemma round_half_even_nonpos:
  assumes "s \<le> 0"
  shows "round_half_even s \<le> 0"
proof (cases "s = 0")
  case True
  then show ?thesis by (simp add: round_half_even_def)
next
  case False
  with assms have "s < 0" by simp
  then have "\<lfloor>s\<rfloor> < 0" by simp
  then have "\<lfloor>s\<rfloor> + 1 \<le> 0" "\<lfloor>s\<rfloor> \<le> 0" by linarith+
  then show ?thesis
    unfolding round_half_even_def Let_def by presburger
qed

lemma rnd_nonneg:
  assumes "0 \<le> q"
  shows "\<not> flt (rnd q) (Fin 0)"
proof -
  define e where "e = max (binexp q - 52) (- 1074)"
  have "0 \<le> q / pow2 e" using assms pow2_pos [of e] by simp
  then have "0 \<le> round_half_even (q / pow2 e)" by (rule round_half_even_nonneg)
  then have "0 \<le> rat_of_int (round_half_even (q / pow2 e)) * pow2 e"
    using pow2_pos [of e] by simp
  then show ?thesis
    using assms by (auto simp: rnd_def Let_def e_def)
qed

lemma rnd_nonpos:
  assumes "q \<le> 0"
  shows "\<not> flt (Fin 0) (rnd q)"
proof -
  define e where "e = max (binexp q - 52) (- 1074)"
  have "q / pow2 e \<le> 0" using assms pow2_pos [of e] by (simp add: divide_le_0_iff)
  then have "round_half_even (q / pow2 e) \<le> 0" by (rule round_half_even_nonpos)
  then have "rat_of_int (round_half_even (q / pow2 e)) * pow2 e \<le> 0"
    using pow2_pos [of e] by (simp add: mult_le_0_iff)
  then show ?thesis
    using assms by (auto simp: rnd_def Let_def e_def)
qed

lemma rnd_zero: "rnd 0 = Fin 0"
  by (simp add: rnd_def)

lemma rnd_cases_nonneg: "0 \<le> q \<Longrightarrow> rnd q = PInf \<or> (\<exists>r. rnd q = Fin r \<and> 0 \<le> r)"
  using rnd_nonneg [of q] by (cases "rnd q") (auto simp: rnd_def Let_def split: if_splits)

lemma rnd_cases_nonpos: "q \<le> 0 \<Longrightarrow> rnd q = NInf \<or> (\<exists>r. rnd q = Fin r \<and> r \<le> 0)"
  using rnd_nonpos [of q] by (cases "rnd q") (auto simp: rnd_def Let_def split: if_splits)

subsection \<open>The rounding function\<close>

text \<open>
  The overflow test of \<open>rnd\<close> compares exponents; it holds exactly when the rounded
  magnitude reaches \<open>2 ^ 1024\<close>. The examples are the floats Python prints for \<open>0.1\<close>,
  \<open>0.1 + 0.2\<close> and \<open>1 / 3\<close>, and two ties that go to the even neighbour.
\<close>

lemma pow2_powi: "pow2 e = 2 powi e"
  by (simp add: pow2_def power_int_def inverse_eq_divide power_one_over)

lemma pow2_add: "pow2 (a + b) = pow2 a * pow2 b"
  by (simp add: pow2_powi power_int_add)

lemma pow2_mono: "a \<le> b \<Longrightarrow> pow2 a \<le> pow2 b"
  by (simp add: pow2_powi power_int_increasing)

lemma bitlen_pow2_bounds:
  assumes "0 < M"
  shows "pow2 (bitlen M - 1) \<le> of_int M" "of_int M < pow2 (bitlen M)"
proof -
  from bitlen_bounds [OF assms]
  have b: "2 ^ nat (bitlen M - 1) \<le> M" "M < 2 ^ nat (bitlen M)" by simp_all
  have k: "1 \<le> bitlen M" using assms bitlen_eq_zero_iff [of M] bitlen_nonneg [of M] by linarith
  have "rat_of_int (2 ^ nat (bitlen M - 1)) \<le> of_int M" using b(1) by (simp only: of_int_le_iff)
  then show "pow2 (bitlen M - 1) \<le> of_int M" using k by (simp add: pow2_def)
  have "rat_of_int M < of_int (2 ^ nat (bitlen M))" using b(2) by (simp only: of_int_less_iff)
  then show "of_int M < pow2 (bitlen M)" using k by (simp add: pow2_def)
qed

lemma overflow_test:
  assumes "m \<noteq> 0"
  shows "(1024 < bitlen \<bar>m\<bar> + e) \<longleftrightarrow> (2 ^ 1024 \<le> \<bar>rat_of_int m * pow2 e\<bar>)"
proof -
  have M: "0 < \<bar>m\<bar>" using assms by simp
  note bd = bitlen_pow2_bounds [OF M]
  have p: "0 < pow2 e" by (rule pow2_pos)
  have abs: "\<bar>rat_of_int m * pow2 e\<bar> = of_int \<bar>m\<bar> * pow2 e"
    using p by (simp add: abs_mult)
  have top: "pow2 1024 = 2 ^ 1024" by (simp add: pow2_def)
  show ?thesis
  proof
    assume "1024 < bitlen \<bar>m\<bar> + e"
    then have "pow2 (1024 - e) \<le> pow2 (bitlen \<bar>m\<bar> - 1)" by (intro pow2_mono) simp
    also have "\<dots> \<le> of_int \<bar>m\<bar>" by (rule bd(1))
    finally have "pow2 (1024 - e) * pow2 e \<le> of_int \<bar>m\<bar> * pow2 e"
      using p by (simp add: mult_right_mono)
    then have "pow2 1024 \<le> of_int \<bar>m\<bar> * pow2 e" by (simp flip: pow2_add)
    then show "2 ^ 1024 \<le> \<bar>rat_of_int m * pow2 e\<bar>" unfolding abs top .
  next
    assume a: "2 ^ 1024 \<le> \<bar>rat_of_int m * pow2 e\<bar>"
    show "1024 < bitlen \<bar>m\<bar> + e"
    proof (rule ccontr)
      assume "\<not> 1024 < bitlen \<bar>m\<bar> + e"
      then have le: "bitlen \<bar>m\<bar> + e \<le> 1024" by simp
      have "of_int \<bar>m\<bar> * pow2 e < pow2 (bitlen \<bar>m\<bar>) * pow2 e"
        using bd(2) p by (simp add: mult_strict_right_mono)
      also have "\<dots> = pow2 (bitlen \<bar>m\<bar> + e)" by (simp add: pow2_add)
      also have "\<dots> \<le> pow2 1024" using le by (rule pow2_mono)
      finally show False using a unfolding abs top by simp
    qed
  qed
qed

lemma rnd_examples:
  "rnd (1 / 10) = Fin (3602879701896397 / 36028797018963968)"
  "fadd (Fin (3602879701896397 / 36028797018963968)) (Fin (3602879701896397 / 18014398509481984))
     = Fin (1351079888211149 / 4503599627370496)"
  "rnd (4503599627370497 - 1 / 2) = Fin 4503599627370496"
  "rnd (9007199254740993) = Fin 9007199254740992"
  "rnd (1 / 3) = Fin (6004799503160661 / 18014398509481984)"
  by code_simp+

subsection \<open>Clamping at zero\<close>

lemma py_max_zero_nonneg: "fle (Fin 0) (py_max (Fin 0) x)"
  by (cases x) (auto simp: py_max_def fle_def fgt_def)

lemma py_max_zero_of_nonpos: "\<not> flt (Fin 0) x \<Longrightarrow> py_max (Fin 0) x = Fin 0"
  by (simp add: py_max_def fgt_def)

lemma fsub_self_max: "py_max (Fin 0) (fsub g g) = Fin 0"
  by (cases g) (auto simp: fsub_def py_max_def fgt_def rnd_zero)

lemma fsub_less_max:
  assumes "flt g p"
  shows "py_max (Fin 0) (fsub g p) = Fin 0"
proof -
  have "\<not> flt (Fin 0) (fsub g p)"
  proof (cases g)
    case (Fin a)
    then show ?thesis
      using assms rnd_nonpos [of "a - b" for b]
      by (cases p) (auto simp: fsub_def)
  qed (use assms in \<open>cases p; auto simp: fsub_def\<close>)+
  then show ?thesis by (rule py_max_zero_of_nonpos)
qed

subsection \<open>Sequencing\<close>

lemma pybind_Inr: "pybind (Inr v) f = f v"
  by (simp add: pybind_def)

lemma pybind_Inl: "pybind (Inl e) f = Inl e"
  by (simp add: pybind_def)

lemma pybind_eq_Inr: "pybind m f = Inr w \<longleftrightarrow> (\<exists>v. m = Inr v \<and> f v = Inr w)"
  by (cases m) (simp_all add: pybind_def)

lemma div_365: "py_truediv tpa (Fin 365) = Inr (fquot tpa (Fin 365))"
  by (simp add: py_truediv_def)

subsection \<open>The processed-versus-gap pie\<close>

lemma gap_pie_eq: "gap_pie sw_proc sw_gen = py_max (Fin 0) (fsub sw_gen sw_proc)"
proof (cases "flt sw_gen sw_proc")
  case True
  then show ?thesis
    by (simp add: gap_pie_def proc_pie_def py_min_def fsub_self_max fsub_less_max)
next
  case False
  then show ?thesis
    by (simp add: gap_pie_def proc_pie_def py_min_def)
qed

lemma pie_sum_over:
  assumes "is_double a" "fle (Fin a) p"
  shows "fadd (proc_pie p (Fin a)) (gap_pie p (Fin a)) = Fin a"
proof (cases "flt (Fin a) p")
  case True
  then show ?thesis
    using assms(1)
    by (simp add: gap_pie_def proc_pie_def py_min_def fsub_self_max is_double_def)
next
  case False
  with assms(2) have "p = Fin a" by (auto simp: fle_def)
  then show ?thesis
    using assms(1)
    by (simp add: gap_pie_def proc_pie_def py_min_def fsub_self_max is_double_def)
qed

lemma pie_sum_exact_diff:
  assumes "is_double a" "is_double (a - b)"
  shows "fadd (proc_pie (Fin b) (Fin a)) (gap_pie (Fin b) (Fin a)) = Fin a"
proof (cases "a < b")
  case True
  then have "fle (Fin a) (Fin b)" by (simp add: fle_def)
  with assms(1) show ?thesis by (rule pie_sum_over)
next
  case False
  have "fsub (Fin a) (Fin b) = Fin (a - b)"
    using assms(2) by (simp add: fsub_def is_double_def)
  then have "gap_pie (Fin b) (Fin a) = Fin (a - b)"
    using False by (auto simp: gap_pie_eq py_max_def fgt_def)
  moreover have "proc_pie (Fin b) (Fin a) = Fin b"
    using False by (simp add: proc_pie_def py_min_def)
  ultimately show ?thesis
    using assms(1) by (simp add: is_double_def)
qed

text \<open>
  Claim C1, as stated, fails on the code: the gap slice is the float difference
  \<open>generated - processed\<close>, which is rounded, so the two slices need not add up to
  generated. At generated = 96.2 and processed = 32.13 (the floats nearest to these
  decimals) the slices are 32.13 and 64.07, whose sum is below 96.2 as an
  exact number and 96.19999999999999 as a float.
\<close>

theorem pie_split_rounding_counterexample:
  "is_double (6769473189891277 / 70368744177664)
   \<and> is_double (4521895500856689 / 140737488355328)
   \<and> fle (Fin 0) (Fin (6769473189891277 / 70368744177664))
   \<and> proc_pie (Fin (4521895500856689 / 140737488355328)) (Fin (6769473189891277 / 70368744177664))
       = Fin (4521895500856689 / 140737488355328)
   \<and> gap_pie (Fin (4521895500856689 / 140737488355328)) (Fin (6769473189891277 / 70368744177664))
       = Fin (1127131359865733 / 17592186044416)
   \<and> (4521895500856689 / 140737488355328 + 1127131359865733 / 17592186044416 :: rat)
       \<noteq> 6769473189891277 / 70368744177664
   \<and> fadd (proc_pie (Fin (4521895500856689 / 140737488355328)) (Fin (6769473189891277 / 70368744177664)))
           (gap_pie (Fin (4521895500856689 / 140737488355328)) (Fin (6769473189891277 / 70368744177664)))
       \<noteq> Fin (6769473189891277 / 70368744177664)"
proof -
  have g: "rnd (6769473189891277 / 70368744177664) = Fin (6769473189891277 / 70368744177664)"
    by code_simp
  have p: "rnd (4521895500856689 / 140737488355328) = Fin (4521895500856689 / 140737488355328)"
    by code_simp
  have d: "rnd (6769473189891277 / 70368744177664 - 4521895500856689 / 140737488355328)
             = Fin (1127131359865733 / 17592186044416)"
    by code_simp
  have s: "rnd (4521895500856689 / 140737488355328 + 1127131359865733 / 17592186044416)
             = Fin (1692368297472819 / 17592186044416)"
    by code_simp
  have pp: "proc_pie (Fin (4521895500856689 / 140737488355328)) (Fin (6769473189891277 / 70368744177664))
       = Fin (4521895500856689 / 140737488355328)"
    by (simp add: proc_pie_def py_min_def)
  have gp: "gap_pie (Fin (4521895500856689 / 140737488355328)) (Fin (6769473189891277 / 70368744177664))
       = Fin (1127131359865733 / 17592186044416)"
    unfolding gap_pie_def pp fsub_def fneg.simps fadd.simps
    using d by (simp add: py_max_def fgt_def)
  show ?thesis
    unfolding pp gp fadd.simps s is_double_def g p
    by (simp add: fle_def)
qed

text \<open>
  Claim C1, amended. The processed slice is \<open>min(processed, generated)\<close>, the gap slice
  equals \<open>max(0, generated - processed)\<close> in float arithmetic, and the processed slice
  is labelled \<open>Processed (100%)\<close> exactly when processed is greater than generated.
  When processed is at least generated the slices are generated and \<open>0\<close> and sum to
  generated exactly; so they do whenever the difference \<open>generated - processed\<close> is
  itself a float (whole numbers, for instance). No condition on the sign of generated
  is needed.
\<close>

theorem pie_split_clamped:
  "proc_pie sw_proc sw_gen = py_min sw_proc sw_gen
   \<and> gap_pie sw_proc sw_gen = py_max (Fin 0) (fsub sw_gen sw_proc)
   \<and> (proc_label sw_proc sw_gen = ''Processed (100%)'' \<longleftrightarrow> fgt sw_proc sw_gen)
   \<and> (proc_label sw_proc sw_gen = ''Processed'' \<longleftrightarrow> \<not> fgt sw_proc sw_gen)
   \<and> (is_double a \<and> fle (Fin a) sw_proc \<longrightarrow>
        proc_pie sw_proc (Fin a) = Fin a \<and> gap_pie sw_proc (Fin a) = Fin 0
        \<and> fadd (proc_pie sw_proc (Fin a)) (gap_pie sw_proc (Fin a)) = Fin a)
   \<and> (is_double a \<and> is_double (a - b) \<longrightarrow>
        fadd (proc_pie (Fin b) (Fin a)) (gap_pie (Fin b) (Fin a)) = Fin a)"
proof -
  have over: "proc_pie sw_proc (Fin a) = Fin a \<and> gap_pie sw_proc (Fin a) = Fin 0"
    if "fle (Fin a) sw_proc"
  proof (cases "flt (Fin a) sw_proc")
    case True
    then show ?thesis
      by (simp add: gap_pie_eq fsub_less_max proc_pie_def py_min_def)
  next
    case False
    with that have "sw_proc = Fin a" by (auto simp: fle_def)
    then show ?thesis
      by (simp add: gap_pie_eq fsub_self_max proc_pie_def py_min_def)
  qed
  show ?thesis
    using over pie_sum_over [of a sw_proc] pie_sum_exact_diff [of a b]
    by (simp add: proc_pie_def gap_pie_eq proc_label_def)
qed

theorem pie_split_clamped_witness:
  "is_double 100 \<and> fle (Fin 100) (Fin 120) \<and> is_double (100 - 40)
   \<and> proc_pie (Fin 120) (Fin 100) = Fin 100 \<and> gap_pie (Fin 120) (Fin 100) = Fin 0
   \<and> proc_label (Fin 120) (Fin 100) = ''Processed (100%)''
   \<and> fadd (proc_pie (Fin 120) (Fin 100)) (gap_pie (Fin 120) (Fin 100)) = Fin 100
   \<and> fadd (proc_pie (Fin 40) (Fin 100)) (gap_pie (Fin 40) (Fin 100)) = Fin 100"
proof -
  have d: "is_double 100" unfolding is_double_def by code_simp
  have e: "is_double (100 - 40)" unfolding is_double_def by code_simp
  have l: "fle (Fin 100) (Fin 120)" "fgt (Fin 120) (Fin 100)" by (simp_all add: fle_def fgt_def)
  from pie_split_clamped [of "Fin 120" "Fin 100" 100 40] d e l show ?thesis
    by blast
qed

subsection \<open>The sign of percent processed\<close>

lemma fmul_100_nonneg: "fle (Fin 0) q \<Longrightarrow> fle (Fin 0) (fmul q (Fin 100))"
proof (cases q)
  case (Fin r)
  assume "fle (Fin 0) q"
  with Fin have "0 \<le> r * 100" by (auto simp: fle_def)
  from rnd_cases_nonneg [OF this] Fin show ?thesis by (auto simp: fle_def)
qed (auto simp: fle_def)

lemma fmul_100_nonpos: "fle q (Fin 0) \<Longrightarrow> fle (fmul q (Fin 100)) (Fin 0)"
proof (cases q)
  case (Fin r)
  assume "fle q (Fin 0)"
  with Fin have "r * 100 \<le> 0" by (auto simp: fle_def)
  from rnd_cases_nonpos [OF this] Fin show ?thesis by (auto simp: fle_def)
qed (auto simp: fle_def)

lemma fquot_nonneg:
  assumes "fgt g (Fin 0)" "fle (Fin 0) p" "p \<noteq> PInf \<or> g \<noteq> PInf"
  shows "fle (Fin 0) (fquot p g)"
proof (cases g)
  case g: (Fin a)
  with assms(1) have a: "0 < a" by (simp add: fgt_def)
  show ?thesis
  proof (cases p)
    case (Fin b)
    with assms(2) a have "0 \<le> b / a" by (auto simp: fle_def)
    from rnd_cases_nonneg [OF this] Fin g show ?thesis by (auto simp: fle_def)
  qed (use assms g a in \<open>auto simp: fle_def\<close>)
qed (use assms in \<open>cases p; auto simp: fle_def fgt_def\<close>)+

lemma fquot_nonpos:
  assumes "fgt g (Fin 0)" "fle p (Fin 0)" "p \<noteq> NInf \<or> g \<noteq> PInf"
  shows "fle (fquot p g) (Fin 0)"
proof (cases g)
  case g: (Fin a)
  with assms(1) have a: "0 < a" by (simp add: fgt_def)
  show ?thesis
  proof (cases p)
    case (Fin b)
    with assms(2) a have "b / a \<le> 0" by (auto simp: fle_def divide_le_0_iff)
    from rnd_cases_nonpos [OF this] Fin g show ?thesis by (auto simp: fle_def)
  qed (use assms g a in \<open>auto simp: fle_def\<close>)
qed (use assms in \<open>cases p; auto simp: fle_def fgt_def\<close>)+

lemma processed_percent_pos_gen:
  "fgt g (Fin 0) \<Longrightarrow> processed_percent p g = Inr (fmul (fquot p g) (Fin 100))"
  using fgt_zero_not_zero [of g]
  by (simp add: processed_percent_def py_truediv_def pybind_def)

subsection \<open>Waste composition\<close>

text \<open>
  Claim C4. The e-waste figure is divided by the constant 365, which never raises, and
  the fourth component is \<open>max(0, generated - (plastic + C&D + e-waste / 365))\<close>; it is
  at least zero for every input, NaN and the infinities included. The composition is
  produced as soon as the three cells convert.
\<close>

theorem waste_composition_other:
  "fle (Fin 0) (other_waste sw_gen pw cd ew)
   \<and> (safe (row_get r ''Sum of Estimated PW Generation in TPD'' (Number (Fin 0))) = Inr pw
      \<and> safe (row_get r ''Sum of C&D Waste Generation in TPD - 2025'' (Number (Fin 0))) = Inr cd
      \<and> safe (row_get r ''Sum of e-waste Generation (TPA)'' (Number (Fin 0))) = Inr tpa \<longrightarrow>
        waste_composition r sw_gen =
          Inr (pw, cd, fquot tpa (Fin 365),
               py_max (Fin 0) (fsub sw_gen (fadd (fadd pw cd) (fquot tpa (Fin 365))))))
   \<and> (waste_composition r sw_gen = Inr (pw, cd, ew, other) \<longrightarrow>
        safe (row_get r ''Sum of Estimated PW Generation in TPD'' (Number (Fin 0))) = Inr pw
      \<and> safe (row_get r ''Sum of C&D Waste Generation in TPD - 2025'' (Number (Fin 0))) = Inr cd
      \<and> (\<exists>tpa. safe (row_get r ''Sum of e-waste Generation (TPA)'' (Number (Fin 0))) = Inr tpa
              \<and> ew = fquot tpa (Fin 365))
      \<and> other = py_max (Fin 0) (fsub sw_gen (fadd (fadd pw cd) ew))
      \<and> fle (Fin 0) other)"
proof -
  have a: "fle (Fin 0) (other_waste sw_gen pw cd ew)"
    unfolding other_waste_def by (rule py_max_zero_nonneg)
  have b: "waste_composition r sw_gen =
          Inr (pw, cd, fquot tpa (Fin 365),
               py_max (Fin 0) (fsub sw_gen (fadd (fadd pw cd) (fquot tpa (Fin 365)))))"
    if "safe (row_get r ''Sum of Estimated PW Generation in TPD'' (Number (Fin 0))) = Inr pw"
      "safe (row_get r ''Sum of C&D Waste Generation in TPD - 2025'' (Number (Fin 0))) = Inr cd"
      "safe (row_get r ''Sum of e-waste Generation (TPA)'' (Number (Fin 0))) = Inr tpa"
    using that by (simp add: waste_composition_def pybind_Inr div_365 other_waste_def)
  have c: "safe (row_get r ''Sum of Estimated PW Generation in TPD'' (Number (Fin 0))) = Inr pw
      \<and> safe (row_get r ''Sum of C&D Waste Generation in TPD - 2025'' (Number (Fin 0))) = Inr cd
      \<and> (\<exists>tpa. safe (row_get r ''Sum of e-waste Generation (TPA)'' (Number (Fin 0))) = Inr tpa
              \<and> ew = fquot tpa (Fin 365))
      \<and> other = py_max (Fin 0) (fsub sw_gen (fadd (fadd pw cd) ew))
      \<and> fle (Fin 0) other"
    if "waste_composition r sw_gen = Inr (pw, cd, ew, other)"
    using that py_max_zero_nonneg
    by (auto simp: waste_composition_def pybind_eq_Inr div_365 other_waste_def)
  from a b c show ?thesis by blast
qed

theorem waste_composition_other_witness:
  "safe (row_get bhopal ''Sum of Estimated PW Generation in TPD'' (Number (Fin 0))) = Inr (Fin 10)
   \<and> safe (row_get bhopal ''Sum of C&D Waste Generation in TPD - 2025'' (Number (Fin 0))) = Inr (Fin 20)
   \<and> safe (row_get bhopal ''Sum of e-waste Generation (TPA)'' (Number (Fin 0))) = Inr (Fin 3650)
   \<and> waste_composition bhopal (Fin 100) = Inr (Fin 10, Fin 20, Fin 10, Fin 60)
   \<and> fle (Fin 0) (Fin 60)
   \<and> waste_composition bhopal (Fin 25) = Inr (Fin 10, Fin 20, Fin 10, Fin 0)"
proof -
  have s: "safe (row_get bhopal ''Sum of Estimated PW Generation in TPD'' (Number (Fin 0))) = Inr (Fin 10)"
    "safe (row_get bhopal ''Sum of C&D Waste Generation in TPD - 2025'' (Number (Fin 0))) = Inr (Fin 20)"
    "safe (row_get bhopal ''Sum of e-waste Generation (TPA)'' (Number (Fin 0))) = Inr (Fin 3650)"
    by (simp_all add: safe_def row_get_def bhopal_def make_row_def columns_def pd_notna_def)
  have q: "fquot (Fin 3650) (Fin 365) = Fin 10" by code_simp
  have o: "py_max (Fin 0) (fsub (Fin 100) (fadd (fadd (Fin 10) (Fin 20)) (Fin 10))) = Fin 60"
    by code_simp
  have o': "py_max (Fin 0) (fsub (Fin 25) (fadd (fadd (Fin 10) (Fin 20)) (Fin 10))) = Fin 0"
    by code_simp
  from waste_composition_other [of "Fin 100" "Fin 10" "Fin 20" "Fin 10" bhopal "Fin 3650" "Fin 60"] s
  have a: "waste_composition bhopal (Fin 100) = Inr (Fin 10, Fin 20, Fin 10, Fin 60)"
    unfolding q o by blast
  with waste_composition_other [of "Fin 100" "Fin 10" "Fin 20" "Fin 10" bhopal "Fin 3650" "Fin 60"]
  have b: "fle (Fin 0) (Fin 60)" by blast
  from waste_composition_other [of "Fin 25" "Fin 10" "Fin 20" "Fin 10" bhopal "Fin 3650" "Fin 0"] s
  have c: "waste_composition bhopal (Fin 25) = Inr (Fin 10, Fin 20, Fin 10, Fin 0)"
    unfolding q o' by blast
  from s a b c show ?thesis by blast
qed

subsection \<open>Cells and sample rows\<close>

lemma safe_simps:
  "safe PyNone = Inr (Fin 0)"
  "safe (Number NaN) = Inr (Fin 0)"
  "x \<noteq> NaN \<Longrightarrow> safe (Number x) = Inr x"
  "safe (NonNumeric s) = Inl ValueError"
  "safe (NumericText x) = Inr x"
  by (simp_all add: safe_def pd_notna_def)

lemma map_district_view_census_text:
  assumes "cells r ''Sum of Census 2011 Population'' = Some (NonNumeric s)"
  shows "map_district_view r n = Inl ValueError"
  using assms by (simp add: map_district_view_def row_get_def safe_simps pybind_Inl)

lemma app_district_view_census_text:
  assumes "filter (\<lambda>r. val_eq (district r) sel) df = r # rs"
    and "cells r ''Sum of Census 2011 Population'' = Some (NonNumeric s)"
  shows "app_district_view df sel = Inl ValueError"
  using assms
  by (simp add: app_district_view_def iloc0_def safe_item_def row_item_def safe_simps
      pybind_Inl pybind_Inr)

lemma click_on_sample:
  "map_update_dashboard df (click_on n) =
     (case match_row df n of [] \<Rightarrow> Inr no_data | r # _ \<Rightarrow> map_district_view r n)"
  by (simp add: map_update_dashboard_def click_on_def pybind_Inr)

lemma norm_names:
  "str_strip (str_lower ''Bhopal'') = ''bhopal''"
  "str_strip (str_lower ''Indore'') = ''indore''"
  "str_strip (str_lower ''bhopal'') = ''bhopal''"
  "str_strip (str_lower '' Bhopal '') = ''bhopal''"
  "str_strip (str_lower ''Atlantis'') = ''atlantis''"
  "str_strip (str_lower ''Ujjain'') = ''ujjain''"
  by code_simp+

lemma sample_districts:
  "district bhopal = VStr ''Bhopal''" "district indore = VStr ''Indore''"
  "district ujjain = VStr ''Ujjain''"
  by (simp_all add: bhopal_def indore_def ujjain_def make_row_def)

subsection \<open>How the callbacks fail, and the percent card\<close>

lemma pybind_eq_Inl:
  "pybind m f = Inl e \<longleftrightarrow> m = Inl e \<or> (\<exists>v. m = Inr v \<and> f v = Inl e)"
  by (cases m) (simp_all add: pybind_def)

lemma safe_error: "safe c = Inl e \<Longrightarrow> e = ValueError"
  by (cases c) (auto simp: safe_def pd_notna_def split: if_splits)

lemma py_int_error: "py_int x = Inl e \<Longrightarrow> e = ValueError \<or> e = OverflowError"
  by (cases x) auto

lemma processed_percent_total: "processed_percent p g \<noteq> Inl e"
  using fgt_zero_not_zero [of g]
  by (auto simp: processed_percent_def py_truediv_def pybind_def)

lemma processed_percent_value:
  "processed_percent p g =
     Inr (if fgt g (Fin 0) then fmul (fquot p g) (Fin 100) else Fin 0)"
  using fgt_zero_not_zero [of g]
  by (simp add: processed_percent_def py_truediv_def pybind_def)

lemma waste_composition_error: "waste_composition r g = Inl e \<Longrightarrow> e = ValueError"
  by (auto simp: waste_composition_def pybind_eq_Inl div_365 dest: safe_error)

lemma map_district_view_error:
  assumes "map_district_view r n = Inl e"
  shows "e = ValueError \<or> e = OverflowError"
  using assms processed_percent_total
  by (auto simp: map_district_view_def pybind_eq_Inl
      dest: safe_error py_int_error waste_composition_error split: prod.splits)

lemma row_item_error: "row_item r c = Inl e \<Longrightarrow> e = KeyError"
  by (auto simp: row_item_def split: option.splits)

lemma safe_item_error: "safe_item r c = Inl e \<Longrightarrow> e = KeyError \<or> e = ValueError"
  by (auto simp: safe_item_def pybind_eq_Inl dest: row_item_error safe_error)

lemma iloc0_error: "iloc0 t = Inl e \<Longrightarrow> e = IndexError"
  by (auto simp: iloc0_def split: list.splits)

lemma app_district_view_error:
  assumes "app_district_view df sel = Inl e"
  shows "e = IndexError \<or> e = KeyError \<or> e = ValueError \<or> e = OverflowError"
  using assms processed_percent_total
  by (auto simp: app_district_view_def pybind_eq_Inl Let_def
      dest: safe_item_error py_int_error iloc0_error)

lemma map_district_view_percent:
  assumes "map_district_view r n = Inr (cards, forecast, charts, comp_pie)"
  shows "\<exists>sw_gen sw_proc.
           safe (row_get r ''Sum of SW_Generation (TPD)'' (Number (Fin 0))) = Inr sw_gen
         \<and> safe (row_get r ''Sum of SW_Processed_ (TPD)'' (Number (Fin 0))) = Inr sw_proc
         \<and> cards ! 2 = Card ''% Waste Processed''
              [Fixed 1 (if fgt sw_gen (Fin 0) then fmul (fquot sw_proc sw_gen) (Fin 100) else Fin 0),
               Lit ''%'']"
  using assms
  by (auto simp: map_district_view_def pybind_eq_Inr processed_percent_value split: prod.splits)

lemma app_district_view_percent:
  assumes "app_district_view df sel = Inr (cards, forecast, bars, pies)"
  shows "\<exists>r rs sw_gen sw_proc.
           filter (\<lambda>r. val_eq (district r) sel) df = r # rs
         \<and> safe_item r ''Sum of SW_Generation (TPD)'' = Inr sw_gen
         \<and> safe_item r ''Sum of SW_Processed_ (TPD)'' = Inr sw_proc
         \<and> cards ! 2 = Card ''% Waste Processed''
              [Fixed 1 (if fgt sw_gen (Fin 0) then fmul (fquot sw_proc sw_gen) (Fin 100) else Fin 0),
               Lit ''%'']"
  using assms
  by (auto simp: app_district_view_def pybind_eq_Inr processed_percent_value Let_def iloc0_def
      split: list.splits)

subsection \<open>Percent processed\<close>

lemma sample_reads:
  "safe (row_get ujjain ''Sum of SW_Generation (TPD)'' (Number (Fin 0))) = Inr (Fin 200)"
  "safe (row_get ujjain ''Sum of SW_Processed_ (TPD)'' (Number (Fin 0))) = Inr (Fin 50)"
  "safe_item ujjain ''Sum of SW_Generation (TPD)'' = Inr (Fin 200)"
  "safe_item ujjain ''Sum of SW_Processed_ (TPD)'' = Inr (Fin 50)"
  "safe (row_get zero_gen ''Sum of SW_Generation (TPD)'' (Number (Fin 0))) = Inr (Fin 0)"
  "safe (row_get zero_gen ''Sum of SW_Processed_ (TPD)'' (Number (Fin 0))) = Inr (Fin 7)"
  "safe_item zero_gen ''Sum of SW_Generation (TPD)'' = Inr (Fin 0)"
  "safe_item zero_gen ''Sum of SW_Processed_ (TPD)'' = Inr (Fin 7)"
  by (simp_all add: safe_def row_get_def safe_item_def row_item_def pybind_def pd_notna_def
      ujjain_def zero_gen_def make_row_def columns_def)

lemma sample_views:
  "\<exists>p. map_district_view ujjain ''Ujjain'' = Inr p"
  "\<exists>p. app_district_view sample_df (VStr ''Ujjain'') = Inr p"
  "\<exists>p. map_district_view zero_gen ''Dewas'' = Inr p"
  "\<exists>p. app_district_view [zero_gen] (VStr ''Dewas'') = Inr p"
proof -
  have "case map_district_view ujjain ''Ujjain'' of Inl e \<Rightarrow> False | Inr p \<Rightarrow> True"
    by code_simp
  then show "\<exists>p. map_district_view ujjain ''Ujjain'' = Inr p" by (auto split: sum.splits)
  have "case app_district_view sample_df (VStr ''Ujjain'') of Inl e \<Rightarrow> False | Inr p \<Rightarrow> True"
    by code_simp
  then show "\<exists>p. app_district_view sample_df (VStr ''Ujjain'') = Inr p"
    by (auto split: sum.splits)
  have "case map_district_view zero_gen ''Dewas'' of Inl e \<Rightarrow> False | Inr p \<Rightarrow> True"
    by code_simp
  then show "\<exists>p. map_district_view zero_gen ''Dewas'' = Inr p" by (auto split: sum.splits)
  have "case app_district_view [zero_gen] (VStr ''Dewas'') of Inl e \<Rightarrow> False | Inr p \<Rightarrow> True"
    by code_simp
  then show "\<exists>p. app_district_view [zero_gen] (VStr ''Dewas'') = Inr p"
    by (auto split: sum.splits)
qed

lemma sample_filters:
  "filter (\<lambda>r. val_eq (district r) (VStr ''Ujjain'')) sample_df = [ujjain]"
  "filter (\<lambda>r. val_eq (district r) (VStr ''Dewas'')) [zero_gen] = [zero_gen]"
  by (simp_all add: sample_df_def val_eq_def sample_districts zero_gen_def make_row_def)

text \<open>
  Claim C3. In both variants percent processed is \<open>processed / generated * 100\<close> (in
  float arithmetic) when generated is greater than zero and \<open>0\<close> otherwise. This is the
  value of the helper expression, and it is the value shown on the card
  \<open>% Waste Processed\<close> of either callback, computed from the generated and processed
  cells of the selected row. The division is never reached with a zero divisor:
  neither callback raises \<open>ZeroDivisionError\<close>, for any table and any selection.
\<close>

theorem processed_percent_formula:
  "(fgt sw_gen (Fin 0) \<longrightarrow>
      processed_percent sw_proc sw_gen = Inr (fmul (fquot sw_proc sw_gen) (Fin 100)))
   \<and> (\<not> fgt sw_gen (Fin 0) \<longrightarrow> processed_percent sw_proc sw_gen = Inr (Fin 0))
   \<and> processed_percent sw_proc (Fin 0) = Inr (Fin 0)
   \<and> (\<forall>e. processed_percent sw_proc sw_gen \<noteq> Inl e)
   \<and> (map_district_view r n = Inr (cards, forecast, charts, comp_pie) \<longrightarrow>
        (\<exists>gen proc.
           safe (row_get r ''Sum of SW_Generation (TPD)'' (Number (Fin 0))) = Inr gen
         \<and> safe (row_get r ''Sum of SW_Processed_ (TPD)'' (Number (Fin 0))) = Inr proc
         \<and> cards ! 2 = Card ''% Waste Processed''
              [Fixed 1 (if fgt gen (Fin 0) then fmul (fquot proc gen) (Fin 100) else Fin 0),
               Lit ''%'']))
   \<and> (app_district_view df sel = Inr (acards, aforecast, bars, pies) \<longrightarrow>
        (\<exists>r' rs gen proc.
           filter (\<lambda>r. val_eq (district r) sel) df = r' # rs
         \<and> safe_item r' ''Sum of SW_Generation (TPD)'' = Inr gen
         \<and> safe_item r' ''Sum of SW_Processed_ (TPD)'' = Inr proc
         \<and> acards ! 2 = Card ''% Waste Processed''
              [Fixed 1 (if fgt gen (Fin 0) then fmul (fquot proc gen) (Fin 100) else Fin 0),
               Lit ''%'']))
   \<and> map_district_view r n \<noteq> Inl ZeroDivisionError
   \<and> app_district_view df sel \<noteq> Inl ZeroDivisionError"
proof -
  have a: "map_district_view r n \<noteq> Inl ZeroDivisionError"
    using map_district_view_error [of r n ZeroDivisionError] by auto
  have b: "app_district_view df sel \<noteq> Inl ZeroDivisionError"
    using app_district_view_error [of df sel ZeroDivisionError] by auto
  have c: "processed_percent sw_proc (Fin 0) = Inr (Fin 0)"
    by (simp add: processed_percent_value fgt_def)
  from a b c map_district_view_percent [of r n cards forecast charts comp_pie]
    app_district_view_percent [of df sel acards aforecast bars pies]
    processed_percent_total [of sw_proc sw_gen]
  show ?thesis
    by (simp add: processed_percent_value)
qed

theorem processed_percent_formula_witness:
  "fgt (Fin 200) (Fin 0) \<and> processed_percent (Fin 50) (Fin 200) = Inr (Fin 25)
   \<and> \<not> fgt (Fin (- 3)) (Fin 0) \<and> processed_percent (Fin 50) (Fin (- 3)) = Inr (Fin 0)
   \<and> processed_percent (Fin 50) (Fin 0) = Inr (Fin 0)
   \<and> (\<exists>cards forecast charts comp_pie.
         map_district_view ujjain ''Ujjain'' = Inr (cards, forecast, charts, comp_pie)
       \<and> cards ! 2 = Card ''% Waste Processed'' [Fixed 1 (Fin 25), Lit ''%''])
   \<and> (\<exists>cards forecast bars pies.
         app_district_view sample_df (VStr ''Ujjain'') = Inr (cards, forecast, bars, pies)
       \<and> cards ! 2 = Card ''% Waste Processed'' [Fixed 1 (Fin 25), Lit ''%''])
   \<and> (\<exists>cards forecast charts comp_pie.
         map_district_view zero_gen ''Dewas'' = Inr (cards, forecast, charts, comp_pie)
       \<and> cards ! 2 = Card ''% Waste Processed'' [Fixed 1 (Fin 0), Lit ''%''])
   \<and> (\<exists>cards forecast bars pies.
         app_district_view [zero_gen] (VStr ''Dewas'') = Inr (cards, forecast, bars, pies)
       \<and> cards ! 2 = Card ''% Waste Processed'' [Fixed 1 (Fin 0), Lit ''%''])"
proof -
  have q: "fmul (fquot (Fin 50) (Fin 200)) (Fin 100) = Fin 25" by code_simp
  have g: "fgt (Fin 200) (Fin 0)" "\<not> fgt (Fin (- 3)) (Fin 0)" "\<not> fgt (Fin 0) (Fin 0)"
    by (simp_all add: fgt_def)
  from processed_percent_formula [of "Fin 200" "Fin 50"] g q
  have a: "processed_percent (Fin 50) (Fin 200) = Inr (Fin 25)" by simp
  from processed_percent_formula [of "Fin (- 3)" "Fin 50"] g
  have b: "processed_percent (Fin 50) (Fin (- 3)) = Inr (Fin 0)" by blast
  from processed_percent_formula [of "Fin 0" "Fin 50"]
  have c: "processed_percent (Fin 50) (Fin 0) = Inr (Fin 0)" by blast
  obtain c1 f1 h1 p1 where m1: "map_district_view ujjain ''Ujjain'' = Inr (c1, f1, h1, p1)"
    using sample_views(1) by (metis prod_cases4)
  obtain c2 f2 h2 p2 where m2:
    "app_district_view sample_df (VStr ''Ujjain'') = Inr (c2, f2, h2, p2)"
    using sample_views(2) by (metis prod_cases4)
  obtain c3 f3 h3 p3 where m3: "map_district_view zero_gen ''Dewas'' = Inr (c3, f3, h3, p3)"
    using sample_views(3) by (metis prod_cases4)
  obtain c4 f4 h4 p4 where m4:
    "app_district_view [zero_gen] (VStr ''Dewas'') = Inr (c4, f4, h4, p4)"
    using sample_views(4) by (metis prod_cases4)
  from processed_percent_formula [of _ _ ujjain "''Ujjain''" c1 f1 h1 p1] m1
  have d1: "c1 ! 2 = Card ''% Waste Processed'' [Fixed 1 (Fin 25), Lit ''%'']"
    using g q by (auto simp: sample_reads)
  from processed_percent_formula [of _ _ _ _ _ _ _ _ sample_df "VStr ''Ujjain''" c2 f2 h2 p2] m2
  obtain r2 rs2 gen2 proc2 where
    "filter (\<lambda>r. val_eq (district r) (VStr ''Ujjain'')) sample_df = r2 # rs2"
    and s2: "safe_item r2 ''Sum of SW_Generation (TPD)'' = Inr gen2"
      "safe_item r2 ''Sum of SW_Processed_ (TPD)'' = Inr proc2"
    and k2: "c2 ! 2 = Card ''% Waste Processed''
              [Fixed 1 (if fgt gen2 (Fin 0) then fmul (fquot proc2 gen2) (Fin 100) else Fin 0),
               Lit ''%'']"
    by blast
  then have "r2 = ujjain" unfolding sample_filters by simp
  with s2 have "gen2 = Fin 200" "proc2 = Fin 50" by (simp_all add: sample_reads)
  with k2 g q have d2: "c2 ! 2 = Card ''% Waste Processed'' [Fixed 1 (Fin 25), Lit ''%'']"
    by simp
  from processed_percent_formula [of _ _ zero_gen "''Dewas''" c3 f3 h3 p3] m3
  have d3: "c3 ! 2 = Card ''% Waste Processed'' [Fixed 1 (Fin 0), Lit ''%'']"
    using g by (auto simp: sample_reads)
  from processed_percent_formula [of _ _ _ _ _ _ _ _ "[zero_gen]" "VStr ''Dewas''" c4 f4 h4 p4] m4
  obtain r4 rs4 gen4 proc4 where
    "filter (\<lambda>r. val_eq (district r) (VStr ''Dewas'')) [zero_gen] = r4 # rs4"
    and s4: "safe_item r4 ''Sum of SW_Generation (TPD)'' = Inr gen4"
      "safe_item r4 ''Sum of SW_Processed_ (TPD)'' = Inr proc4"
    and k4: "c4 ! 2 = Card ''% Waste Processed''
              [Fixed 1 (if fgt gen4 (Fin 0) then fmul (fquot proc4 gen4) (Fin 100) else Fin 0),
               Lit ''%'']"
    by blast
  then have "r4 = zero_gen" unfolding sample_filters by simp
  with s4 have "gen4 = Fin 0" "proc4 = Fin 7" by (simp_all add: sample_reads)
  with k4 g have d4: "c4 ! 2 = Card ''% Waste Processed'' [Fixed 1 (Fin 0), Lit ''%'']"
    by simp
  from a b c g m1 m2 m3 m4 d1 d2 d3 d4 show ?thesis by blast
qed

lemma percent_sign:
  fixes gen proc :: pyfloat
  defines "v \<equiv> (if fgt gen (Fin 0) then fmul (fquot proc gen) (Fin 100) else Fin 0)"
  shows "\<not> fgt gen (Fin 0) \<longrightarrow> v = Fin 0"
    and "proc = Fin 0 \<longrightarrow> v = Fin 0"
    and "fgt gen (Fin 0) \<and> fle (Fin 0) proc \<and> (proc \<noteq> PInf \<or> gen \<noteq> PInf) \<longrightarrow> fle (Fin 0) v"
    and "fgt gen (Fin 0) \<and> fle proc (Fin 0) \<and> (proc \<noteq> NInf \<or> gen \<noteq> PInf) \<longrightarrow> fle v (Fin 0)"
proof -
  show "\<not> fgt gen (Fin 0) \<longrightarrow> v = Fin 0" by (simp add: v_def)
  show "proc = Fin 0 \<longrightarrow> v = Fin 0"
    by (cases gen) (auto simp: v_def rnd_zero fgt_def)
  show "fgt gen (Fin 0) \<and> fle (Fin 0) proc \<and> (proc \<noteq> PInf \<or> gen \<noteq> PInf) \<longrightarrow> fle (Fin 0) v"
    using fmul_100_nonneg [OF fquot_nonneg, of gen proc] by (auto simp: v_def)
  show "fgt gen (Fin 0) \<and> fle proc (Fin 0) \<and> (proc \<noteq> NInf \<or> gen \<noteq> PInf) \<longrightarrow> fle v (Fin 0)"
    using fmul_100_nonpos [OF fquot_nonpos, of gen proc] by (auto simp: v_def)
qed

text \<open>
  Claim C2, as stated, fails on the code. Percent processed is \<open>0\<close> for a district that
  generates waste and processes none (generated = 10, processed = 0), so it is not zero
  only when generated is at most zero; and nothing clamps a negative processed value
  (generated = 10, processed = -5 gives -50).
\<close>

theorem processed_percent_range_counterexample:
  "processed_percent (Fin 0) (Fin 10) = Inr (Fin 0) \<and> \<not> fle (Fin 10) (Fin 0)
   \<and> processed_percent (Fin (- 5)) (Fin 10) = Inr (Fin (- 50)) \<and> \<not> fle (Fin 0) (Fin (- 50))"
proof -
  have g: "fgt (Fin 10) (Fin 0)" by (simp add: fgt_def)
  have a: "rnd (- 5 / 10) = Fin (- 1 / 2)" by code_simp
  have b: "rnd (- 1 / 2 * 100) = Fin (- 50)" by code_simp
  show ?thesis
    using a b by (simp add: processed_percent_pos_gen [OF g] rnd_zero fle_def)
qed

text \<open>
  Claim C2, amended. Percent processed is \<open>0\<close> whenever generated is not greater than
  zero, and also whenever processed is \<open>0\<close>. It takes the sign of processed: for
  generated above zero it is at least zero when processed is, and at most zero when
  processed is at most zero (infinite over infinite, which is NaN, set aside). The
  same holds of the value on the card \<open>% Waste Processed\<close> of either callback, with
  generated and processed read from the selected row.
\<close>

theorem processed_percent_sign:
  "(\<not> fgt sw_gen (Fin 0) \<longrightarrow> processed_percent sw_proc sw_gen = Inr (Fin 0))
   \<and> (fgt sw_gen (Fin 0) \<longrightarrow> processed_percent (Fin 0) sw_gen = Inr (Fin 0))
   \<and> (fgt sw_gen (Fin 0) \<and> fle (Fin 0) sw_proc \<and> (sw_proc \<noteq> PInf \<or> sw_gen \<noteq> PInf) \<longrightarrow>
        (\<exists>v. processed_percent sw_proc sw_gen = Inr v \<and> fle (Fin 0) v))
   \<and> (fgt sw_gen (Fin 0) \<and> fle sw_proc (Fin 0) \<and> (sw_proc \<noteq> NInf \<or> sw_gen \<noteq> PInf) \<longrightarrow>
        (\<exists>v. processed_percent sw_proc sw_gen = Inr v \<and> fle v (Fin 0)))
   \<and> (map_district_view r n = Inr (cards, forecast, charts, comp_pie) \<longrightarrow>
        (\<exists>gen proc v.
           safe (row_get r ''Sum of SW_Generation (TPD)'' (Number (Fin 0))) = Inr gen
         \<and> safe (row_get r ''Sum of SW_Processed_ (TPD)'' (Number (Fin 0))) = Inr proc
         \<and> cards ! 2 = Card ''% Waste Processed'' [Fixed 1 v, Lit ''%'']
         \<and> (\<not> fgt gen (Fin 0) \<longrightarrow> v = Fin 0)
         \<and> (proc = Fin 0 \<longrightarrow> v = Fin 0)
         \<and> (fgt gen (Fin 0) \<and> fle (Fin 0) proc \<and> (proc \<noteq> PInf \<or> gen \<noteq> PInf) \<longrightarrow> fle (Fin 0) v)
         \<and> (fgt gen (Fin 0) \<and> fle proc (Fin 0) \<and> (proc \<noteq> NInf \<or> gen \<noteq> PInf) \<longrightarrow> fle v (Fin 0))))
   \<and> (app_district_view df sel = Inr (acards, aforecast, bars, pies) \<longrightarrow>
        (\<exists>r' rs gen proc v.
           filter (\<lambda>r. val_eq (district r) sel) df = r' # rs
         \<and> safe_item r' ''Sum of SW_Generation (TPD)'' = Inr gen
         \<and> safe_item r' ''Sum of SW_Processed_ (TPD)'' = Inr proc
         \<and> acards ! 2 = Card ''% Waste Processed'' [Fixed 1 v, Lit ''%'']
         \<and> (\<not> fgt gen (Fin 0) \<longrightarrow> v = Fin 0)
         \<and> (proc = Fin 0 \<longrightarrow> v = Fin 0)
         \<and> (fgt gen (Fin 0) \<and> fle (Fin 0) proc \<and> (proc \<noteq> PInf \<or> gen \<noteq> PInf) \<longrightarrow> fle (Fin 0) v)
         \<and> (fgt gen (Fin 0) \<and> fle proc (Fin 0) \<and> (proc \<noteq> NInf \<or> gen \<noteq> PInf) \<longrightarrow> fle v (Fin 0))))"
proof -
  have h: "(\<not> fgt sw_gen (Fin 0) \<longrightarrow> processed_percent sw_proc sw_gen = Inr (Fin 0))
   \<and> (fgt sw_gen (Fin 0) \<longrightarrow> processed_percent (Fin 0) sw_gen = Inr (Fin 0))
   \<and> (fgt sw_gen (Fin 0) \<and> fle (Fin 0) sw_proc \<and> (sw_proc \<noteq> PInf \<or> sw_gen \<noteq> PInf) \<longrightarrow>
        (\<exists>v. processed_percent sw_proc sw_gen = Inr v \<and> fle (Fin 0) v))
   \<and> (fgt sw_gen (Fin 0) \<and> fle sw_proc (Fin 0) \<and> (sw_proc \<noteq> NInf \<or> sw_gen \<noteq> PInf) \<longrightarrow>
        (\<exists>v. processed_percent sw_proc sw_gen = Inr v \<and> fle v (Fin 0)))"
    using percent_sign [where gen = sw_gen and proc = sw_proc]
      percent_sign(2) [where gen = sw_gen and proc = "Fin 0"]
    by (auto simp: processed_percent_value split: if_splits)
  have m: "\<exists>gen proc v.
           safe (row_get r ''Sum of SW_Generation (TPD)'' (Number (Fin 0))) = Inr gen
         \<and> safe (row_get r ''Sum of SW_Processed_ (TPD)'' (Number (Fin 0))) = Inr proc
         \<and> cards ! 2 = Card ''% Waste Processed'' [Fixed 1 v, Lit ''%'']
         \<and> (\<not> fgt gen (Fin 0) \<longrightarrow> v = Fin 0)
         \<and> (proc = Fin 0 \<longrightarrow> v = Fin 0)
         \<and> (fgt gen (Fin 0) \<and> fle (Fin 0) proc \<and> (proc \<noteq> PInf \<or> gen \<noteq> PInf) \<longrightarrow> fle (Fin 0) v)
         \<and> (fgt gen (Fin 0) \<and> fle proc (Fin 0) \<and> (proc \<noteq> NInf \<or> gen \<noteq> PInf) \<longrightarrow> fle v (Fin 0))"
    if "map_district_view r n = Inr (cards, forecast, charts, comp_pie)"
  proof -
    from map_district_view_percent [OF that] obtain gen proc where
      "safe (row_get r ''Sum of SW_Generation (TPD)'' (Number (Fin 0))) = Inr gen"
      "safe (row_get r ''Sum of SW_Processed_ (TPD)'' (Number (Fin 0))) = Inr proc"
      "cards ! 2 = Card ''% Waste Processed''
              [Fixed 1 (if fgt gen (Fin 0) then fmul (fquot proc gen) (Fin 100) else Fin 0),
               Lit ''%'']"
      by blast
    with percent_sign [where gen = gen and proc = proc] show ?thesis by blast
  qed
  have a: "\<exists>r' rs gen proc v.
           filter (\<lambda>r. val_eq (district r) sel) df = r' # rs
         \<and> safe_item r' ''Sum of SW_Generation (TPD)'' = Inr gen
         \<and> safe_item r' ''Sum of SW_Processed_ (TPD)'' = Inr proc
         \<and> acards ! 2 = Card ''% Waste Processed'' [Fixed 1 v, Lit ''%'']
         \<and> (\<not> fgt gen (Fin 0) \<longrightarrow> v = Fin 0)
         \<and> (proc = Fin 0 \<longrightarrow> v = Fin 0)
         \<and> (fgt gen (Fin 0) \<and> fle (Fin 0) proc \<and> (proc \<noteq> PInf \<or> gen \<noteq> PInf) \<longrightarrow> fle (Fin 0) v)
         \<and> (fgt gen (Fin 0) \<and> fle proc (Fin 0) \<and> (proc \<noteq> NInf \<or> gen \<noteq> PInf) \<longrightarrow> fle v (Fin 0))"
    if "app_district_view df sel = Inr (acards, aforecast, bars, pies)"
  proof -
    from app_district_view_percent [OF that] obtain r' rs gen proc where
      "filter (\<lambda>r. val_eq (district r) sel) df = r' # rs"
      "safe_item r' ''Sum of SW_Generation (TPD)'' = Inr gen"
      "safe_item r' ''Sum of SW_Processed_ (TPD)'' = Inr proc"
      "acards ! 2 = Card ''% Waste Processed''
              [Fixed 1 (if fgt gen (Fin 0) then fmul (fquot proc gen) (Fin 100) else Fin 0),
               Lit ''%'']"
      by blast
    with percent_sign [where gen = gen and proc = proc] show ?thesis by blast
  qed
  from h m a show ?thesis by blast
qed

lemma strasse_reads:
  "safe (row_get strasse ''Sum of SW_Generation (TPD)'' (Number (Fin 0))) = Inr (Fin 10)"
  "safe (row_get strasse ''Sum of SW_Processed_ (TPD)'' (Number (Fin 0))) = Inr (Fin 0)"
  "safe_item strasse ''Sum of SW_Generation (TPD)'' = Inr (Fin 10)"
  "safe_item strasse ''Sum of SW_Processed_ (TPD)'' = Inr (Fin 0)"
  "district strasse = VStr (''Stra'' @ [CHR 0xDF] @ ''e'')"
  by (simp_all add: safe_def row_get_def safe_item_def row_item_def pybind_def pd_notna_def
      strasse_def make_row_def columns_def)

lemma strasse_views:
  "\<exists>p. map_district_view strasse ''STRASSE'' = Inr p"
  "\<exists>p. app_district_view [strasse] (VStr (''Stra'' @ [CHR 0xDF] @ ''e'')) = Inr p"
proof -
  have "case map_district_view strasse ''STRASSE'' of Inl e \<Rightarrow> False | Inr p \<Rightarrow> True"
    by code_simp
  then show "\<exists>p. map_district_view strasse ''STRASSE'' = Inr p" by (auto split: sum.splits)
  have "case app_district_view [strasse] (VStr (''Stra'' @ [CHR 0xDF] @ ''e'')) of
          Inl e \<Rightarrow> False | Inr p \<Rightarrow> True"
    by code_simp
  then show "\<exists>p. app_district_view [strasse] (VStr (''Stra'' @ [CHR 0xDF] @ ''e'')) = Inr p"
    by (auto split: sum.splits)
qed

theorem processed_percent_sign_witness:
  "\<not> fgt (Fin (- 3)) (Fin 0) \<and> processed_percent (Fin 50) (Fin (- 3)) = Inr (Fin 0)
   \<and> fgt (Fin 200) (Fin 0) \<and> processed_percent (Fin 0) (Fin 200) = Inr (Fin 0)
   \<and> fle (Fin 0) (Fin 50) \<and> (\<exists>v. processed_percent (Fin 50) (Fin 200) = Inr v \<and> fle (Fin 0) v)
   \<and> fle (Fin (- 50)) (Fin 0) \<and> (\<exists>v. processed_percent (Fin (- 50)) (Fin 200) = Inr v \<and> fle v (Fin 0))
   \<and> (\<exists>cards forecast charts comp_pie.
         map_district_view strasse ''STRASSE'' = Inr (cards, forecast, charts, comp_pie)
       \<and> cards ! 2 = Card ''% Waste Processed'' [Fixed 1 (Fin 0), Lit ''%''])
   \<and> (\<exists>cards forecast bars pies.
         app_district_view [strasse] (VStr (''Stra'' @ [CHR 0xDF] @ ''e''))
           = Inr (cards, forecast, bars, pies)
       \<and> cards ! 2 = Card ''% Waste Processed'' [Fixed 1 (Fin 0), Lit ''%''])
   \<and> (\<exists>cards forecast charts comp_pie v.
         map_district_view ujjain ''Ujjain'' = Inr (cards, forecast, charts, comp_pie)
       \<and> cards ! 2 = Card ''% Waste Processed'' [Fixed 1 v, Lit ''%''] \<and> fle (Fin 0) v)"
proof -
  have g: "\<not> fgt (Fin (- 3)) (Fin 0)" "fgt (Fin 200) (Fin 0)" "fle (Fin 0) (Fin 50)"
    "fle (Fin (- 50)) (Fin 0)"
    by (simp_all add: fgt_def fle_def)
  from processed_percent_sign [of "Fin (- 3)" "Fin 50"] g
  have a: "processed_percent (Fin 50) (Fin (- 3)) = Inr (Fin 0)" by blast
  from processed_percent_sign [of "Fin 200" "Fin 50"] g
  have b: "processed_percent (Fin 0) (Fin 200) = Inr (Fin 0)"
    "\<exists>v. processed_percent (Fin 50) (Fin 200) = Inr v \<and> fle (Fin 0) v" by blast+
  from processed_percent_sign [of "Fin 200" "Fin (- 50)"] g
  have c: "\<exists>v. processed_percent (Fin (- 50)) (Fin 200) = Inr v \<and> fle v (Fin 0)" by blast
  obtain c1 f1 h1 p1 where m1: "map_district_view strasse ''STRASSE'' = Inr (c1, f1, h1, p1)"
    using strasse_views(1) by (metis prod_cases4)
  obtain c2 f2 h2 p2 where m2:
    "app_district_view [strasse] (VStr (''Stra'' @ [CHR 0xDF] @ ''e'')) = Inr (c2, f2, h2, p2)"
    using strasse_views(2) by (metis prod_cases4)
  obtain c3 f3 h3 p3 where m3: "map_district_view ujjain ''Ujjain'' = Inr (c3, f3, h3, p3)"
    using sample_views(1) by (metis prod_cases4)
  note processed_percent_sign [of "Fin 0" "Fin 0" strasse "''STRASSE''" c1 f1 h1 p1
      "[]" VNone "[]" "Figure [] [] None" "[]" "[]",
      THEN conjunct2, THEN conjunct2, THEN conjunct2, THEN conjunct2, THEN conjunct1,
      THEN mp, OF m1]
  then obtain gen1 proc1 v1 where
    "safe (row_get strasse ''Sum of SW_Processed_ (TPD)'' (Number (Fin 0))) = Inr proc1"
    "c1 ! 2 = Card ''% Waste Processed'' [Fixed 1 v1, Lit ''%'']" "proc1 = Fin 0 \<longrightarrow> v1 = Fin 0"
    by blast
  then have d1: "c1 ! 2 = Card ''% Waste Processed'' [Fixed 1 (Fin 0), Lit ''%'']"
    by (simp add: strasse_reads)
  note processed_percent_sign [of "Fin 0" "Fin 0" strasse "''STRASSE''" c1 f1 h1 p1
      "[strasse]" "VStr (''Stra'' @ [CHR 0xDF] @ ''e'')" c2 f2 h2 p2,
      THEN conjunct2, THEN conjunct2, THEN conjunct2, THEN conjunct2, THEN conjunct2,
      THEN mp, OF m2]
  then obtain r2 rs2 gen2 proc2 v2 where
    f2: "filter (\<lambda>r. val_eq (district r) (VStr (''Stra'' @ [CHR 0xDF] @ ''e''))) [strasse] = r2 # rs2"
    and s2: "safe_item r2 ''Sum of SW_Processed_ (TPD)'' = Inr proc2"
    and k2: "c2 ! 2 = Card ''% Waste Processed'' [Fixed 1 v2, Lit ''%'']" "proc2 = Fin 0 \<longrightarrow> v2 = Fin 0"
    by blast
  from f2 have "r2 = strasse" by (simp add: val_eq_def strasse_reads)
  with s2 k2 have d2: "c2 ! 2 = Card ''% Waste Processed'' [Fixed 1 (Fin 0), Lit ''%'']"
    by (simp add: strasse_reads)
  note processed_percent_sign [of "Fin 0" "Fin 0" ujjain "''Ujjain''" c3 f3 h3 p3
      "[]" VNone "[]" "Figure [] [] None" "[]" "[]",
      THEN conjunct2, THEN conjunct2, THEN conjunct2, THEN conjunct2, THEN conjunct1,
      THEN mp, OF m3]
  then obtain gen3 proc3 v3 where
    s3: "safe (row_get ujjain ''Sum of SW_Generation (TPD)'' (Number (Fin 0))) = Inr gen3"
      "safe (row_get ujjain ''Sum of SW_Processed_ (TPD)'' (Number (Fin 0))) = Inr proc3"
    and k3: "c3 ! 2 = Card ''% Waste Processed'' [Fixed 1 v3, Lit ''%'']"
      "fgt gen3 (Fin 0) \<and> fle (Fin 0) proc3 \<and> (proc3 \<noteq> PInf \<or> gen3 \<noteq> PInf) \<longrightarrow> fle (Fin 0) v3"
    by blast
  from s3 have "gen3 = Fin 200" "proc3 = Fin 50" by (simp_all add: sample_reads)
  with k3 g have d3: "c3 ! 2 = Card ''% Waste Processed'' [Fixed 1 v3, Lit ''%''] \<and> fle (Fin 0) v3"
    by simp
  have e1: "\<exists>cards forecast charts comp_pie.
         map_district_view strasse ''STRASSE'' = Inr (cards, forecast, charts, comp_pie)
       \<and> cards ! 2 = Card ''% Waste Processed'' [Fixed 1 (Fin 0), Lit ''%'']"
    using m1 d1 by (intro exI conjI)
  have e2: "\<exists>cards forecast bars pies.
         app_district_view [strasse] (VStr (''Stra'' @ [CHR 0xDF] @ ''e''))
           = Inr (cards, forecast, bars, pies)
       \<and> cards ! 2 = Card ''% Waste Processed'' [Fixed 1 (Fin 0), Lit ''%'']"
    using m2 d2 by (intro exI conjI)
  have e3: "\<exists>cards forecast charts comp_pie v.
         map_district_view ujjain ''Ujjain'' = Inr (cards, forecast, charts, comp_pie)
       \<and> cards ! 2 = Card ''% Waste Processed'' [Fixed 1 v, Lit ''%''] \<and> fle (Fin 0) v"
    using m3 d3 by blast
  show ?thesis
    using a b c g e1 e2 e3 by - (intro conjI, assumption+)
qed

subsection \<open>Missing and non-numeric cells\<close>

lemma safe_row_get_text:
  "cells r col = Some (NonNumeric s) \<Longrightarrow> safe (row_get r col d) = Inl ValueError"
  by (simp add: row_get_def safe_simps)

lemma safe_item_text:
  "cells r col = Some (NonNumeric s) \<Longrightarrow> safe_item r col = Inl ValueError"
  by (simp add: safe_item_def row_item_def pybind_Inr safe_simps)

lemma map_reads_numeric:
  assumes "map_district_view r n = Inr p" "col \<in> set map_columns"
  shows "cells r col \<noteq> Some (NonNumeric s)"
proof
  assume t: "cells r col = Some (NonNumeric s)"
  note x = safe_row_get_text [OF t]
  from assms(1) have
    "\<forall>c \<in> set map_columns. \<exists>d x. safe (row_get r c d) = Inr x"
    by (auto simp: map_district_view_def waste_composition_def pybind_eq_Inr map_columns_def
        split: prod.splits)
  with assms(2) x show False by fastforce
qed

lemma app_reads_numeric:
  assumes "app_district_view df sel = Inr p" "col \<in> set app_columns"
    and "filter (\<lambda>r. val_eq (district r) sel) df = r # rs"
  shows "cells r col \<noteq> Some (NonNumeric s)"
proof
  assume t: "cells r col = Some (NonNumeric s)"
  note x = safe_item_text [OF t]
  from assms(1,3) have "\<forall>c \<in> set app_columns. \<exists>x. safe_item r c = Inr x"
    by (auto simp: app_district_view_def pybind_eq_Inr app_columns_def iloc0_def Let_def)
  with assms(2) x show False by fastforce
qed

lemma map_text_raises:
  assumes "col \<in> set map_columns" "cells r col = Some (NonNumeric s)"
  shows "map_district_view r n = Inl ValueError \<or> map_district_view r n = Inl OverflowError"
proof (cases "map_district_view r n")
  case (Inl e)
  with map_district_view_error [of r n e] show ?thesis by auto
next
  case (Inr p)
  from map_reads_numeric [OF Inr assms(1), of s] assms(2) show ?thesis by simp
qed

lemma app_text_raises:
  assumes "col \<in> set app_columns" "cells r col = Some (NonNumeric s)"
    and "filter (\<lambda>r. val_eq (district r) sel) df = r # rs"
  shows "\<exists>e. app_district_view df sel = Inl e
           \<and> app_update_dashboard df sel = ([CallbackError e], error_payload)"
proof (cases "app_district_view df sel")
  case (Inl e)
  then show ?thesis by (simp add: app_update_dashboard_def)
next
  case (Inr p)
  from app_reads_numeric [OF Inr assms(1,3), of s] assms(2) show ?thesis by simp
qed

text \<open>
  Claim C5, as stated, fails on the code: \<open>safe\<close> tests only \<open>pd.notna\<close>, so a text that
  is no number reaches \<open>float\<close>, which raises \<open>ValueError\<close>. The map callback has no
  handler: a click on Indore, whose census cell holds the text \<open>unknown\<close>, raises.
\<close>

theorem safe_non_numeric_counterexample:
  "safe (NonNumeric ''unknown'') = Inl ValueError
   \<and> map_update_dashboard sample_df (click_on ''Indore'') = Inl ValueError"
proof -
  have m: "match_row sample_df ''Indore'' = [indore]"
    by (simp add: match_row_def sample_df_def sample_districts norm_names)
  have c: "cells indore ''Sum of Census 2011 Population'' = Some (NonNumeric ''unknown'')"
    by (simp add: indore_def make_row_def columns_def)
  show ?thesis
    by (simp add: safe_simps click_on_sample m map_district_view_census_text [OF c])
qed

text \<open>
  Claim C5, amended. A missing value (\<open>None\<close>, the float NaN, and for \<open>row.get\<close> an
  absent column) becomes \<open>0.0\<close> without an exception; a number becomes its float, and so
  does a text that \<open>float\<close> accepts (the text \<open>NAN\<close> becomes NaN, not \<open>0.0\<close>). A text that
  \<open>float\<close> rejects raises \<open>ValueError\<close>: with such a text in any column it reads, the
  map callback raises (\<open>ValueError\<close>, or \<open>OverflowError\<close> when \<open>int\<close> of an infinite census
  value fails first) and the dropdown callback logs the exception and returns its
  error payload. The two ratios guard their denominators: percent processed is \<open>0\<close>
  unless generated is above zero and never raises, and e-waste is divided by 365.
\<close>

theorem safe_defaults:
  "safe PyNone = Inr (Fin 0)
   \<and> safe (Number NaN) = Inr (Fin 0)
   \<and> (x \<noteq> NaN \<longrightarrow> safe (Number x) = Inr x)
   \<and> safe (NumericText y) = Inr y
   \<and> safe (NonNumeric s) = Inl ValueError
   \<and> (cells r0 c0 = None \<longrightarrow>
        safe (row_get r0 c0 (Number (Fin 0))) = Inr (Fin 0)
        \<and> safe (row_get r0 c0 PyNone) = Inr (Fin 0))
   \<and> (col \<in> set map_columns \<and> cells r col = Some (NonNumeric s) \<longrightarrow>
        map_district_view r n = Inl ValueError \<or> map_district_view r n = Inl OverflowError)
   \<and> (col' \<in> set app_columns \<and> cells r' col' = Some (NonNumeric s)
        \<and> filter (\<lambda>r. val_eq (district r) sel) df = r' # rs \<longrightarrow>
        (\<exists>e. app_district_view df sel = Inl e
            \<and> app_update_dashboard df sel = ([CallbackError e], error_payload)))
   \<and> (\<not> fgt sw_gen (Fin 0) \<longrightarrow> processed_percent sw_proc sw_gen = Inr (Fin 0))
   \<and> (\<forall>e. processed_percent sw_proc sw_gen \<noteq> Inl e)
   \<and> py_truediv tpa (Fin 365) = Inr (fquot tpa (Fin 365))"
proof -
  have a: "safe (row_get r0 c0 (Number (Fin 0))) = Inr (Fin 0)
        \<and> safe (row_get r0 c0 PyNone) = Inr (Fin 0)"
    if "cells r0 c0 = None"
    using that by (simp add: row_get_def safe_simps)
  have d: "processed_percent sw_proc sw_gen = Inr (Fin 0)" if "\<not> fgt sw_gen (Fin 0)"
    using that by (simp add: processed_percent_value)
  from a d map_text_raises [of col r s n] app_text_raises [of col' r' s sel df rs]
    processed_percent_total [of sw_proc sw_gen]
    safe_simps(1,2) safe_simps(3) [of x] safe_simps(4) [of s] safe_simps(5) [of y]
    div_365 [of tpa]
  show ?thesis by blast
qed

lemma sagar_cells:
  "''Sum of e-waste Generation (TPA)'' \<in> set map_columns"
  "''Sum of SW Collection Gap (in TPD)-2030'' \<in> set app_columns"
  "cells sagar ''Sum of e-waste Generation (TPA)'' = Some (NonNumeric ''unknown'')"
  "cells sagar ''Sum of SW Collection Gap (in TPD)-2030'' = Some (NonNumeric ''unknown'')"
  "filter (\<lambda>r. val_eq (district r) (VStr ''Sagar'')) [sagar] = sagar # []"
  by (simp_all add: map_columns_def app_columns_def sagar_def make_row_def columns_def val_eq_def)

theorem safe_defaults_witness:
  "PInf \<noteq> NaN \<and> safe (Number PInf) = Inr PInf \<and> safe (NumericText NaN) = Inr NaN
   \<and> cells (indore\<lparr>cells := Map.empty\<rparr>) ''Sum of SW_Generation (TPD)'' = None
   \<and> safe (row_get (indore\<lparr>cells := Map.empty\<rparr>) ''Sum of SW_Generation (TPD)'' (Number (Fin 0)))
        = Inr (Fin 0)
   \<and> ''Sum of e-waste Generation (TPA)'' \<in> set map_columns
   \<and> cells sagar ''Sum of e-waste Generation (TPA)'' = Some (NonNumeric ''unknown'')
   \<and> map_district_view sagar ''Sagar'' = Inl ValueError
   \<and> ''Sum of SW Collection Gap (in TPD)-2030'' \<in> set app_columns
   \<and> cells sagar ''Sum of SW Collection Gap (in TPD)-2030'' = Some (NonNumeric ''unknown'')
   \<and> filter (\<lambda>r. val_eq (district r) (VStr ''Sagar'')) [sagar] = sagar # []
   \<and> app_update_dashboard [sagar] (VStr ''Sagar'') = ([CallbackError ValueError], error_payload)
   \<and> \<not> fgt (Fin 0) (Fin 0) \<and> processed_percent (Fin 7) (Fin 0) = Inr (Fin 0)"
proof -
  have h: "PInf \<noteq> NaN"
    "cells (indore\<lparr>cells := Map.empty\<rparr>) ''Sum of SW_Generation (TPD)'' = None"
    "\<not> fgt (Fin 0) (Fin 0)"
    by (simp_all add: fgt_def)
  note t = safe_defaults [of PInf NaN "''unknown''" "indore\<lparr>cells := Map.empty\<rparr>"
      "''Sum of SW_Generation (TPD)''" "''Sum of e-waste Generation (TPA)''" sagar "''Sagar''"
      "''Sum of SW Collection Gap (in TPD)-2030''" sagar "VStr ''Sagar''" "[sagar]" "[]"
      "Fin 0" "Fin 7" "Fin 0"]
  have no: "map_district_view sagar ''Sagar'' \<noteq> Inl OverflowError" by code_simp
  have ne: "app_district_view [sagar] (VStr ''Sagar'') = Inl ValueError" by code_simp
  from t h sagar_cells
  have 1: "safe (Number PInf) = Inr PInf" "safe (NumericText NaN) = Inr NaN"
    "safe (row_get (indore\<lparr>cells := Map.empty\<rparr>) ''Sum of SW_Generation (TPD)'' (Number (Fin 0)))
        = Inr (Fin 0)"
    "map_district_view sagar ''Sagar'' = Inl ValueError \<or> map_district_view sagar ''Sagar'' = Inl OverflowError"
    "\<exists>e. app_district_view [sagar] (VStr ''Sagar'') = Inl e
            \<and> app_update_dashboard [sagar] (VStr ''Sagar'') = ([CallbackError e], error_payload)"
    "processed_percent (Fin 7) (Fin 0) = Inr (Fin 0)"
    by blast+
  from 1(4) no have 2: "map_district_view sagar ''Sagar'' = Inl ValueError" by simp
  from 1(5) ne have 3: "app_update_dashboard [sagar] (VStr ''Sagar'') = ([CallbackError ValueError], error_payload)"
    by auto
  show ?thesis
    using h sagar_cells 1(1,2,3,6) 2 3 by - (intro conjI, assumption+)
qed

subsection \<open>The map callback: guard, unmatched district, empty click\<close>

lemma map_district_view_cards:
  assumes "map_district_view r n = Inr p"
  shows "length (fst p) = 6"
  using assms
  by (auto simp: map_district_view_def pybind_eq_Inr split: prod.splits)

text \<open>
  The payload of a matched district holds the two pies built from the definitions of
  the Metrics Deriver.
\<close>

lemma map_district_view_pies:
  assumes "map_district_view r n = Inr (cards, forecast, charts, comp_pie)"
  shows "\<exists>sw_gen sw_proc pw cd ew other bars.
           safe (row_get r ''Sum of SW_Generation (TPD)'' (Number (Fin 0))) = Inr sw_gen
         \<and> safe (row_get r ''Sum of SW_Processed_ (TPD)'' (Number (Fin 0))) = Inr sw_proc
         \<and> waste_composition r sw_gen = Inr (pw, cd, ew, other)
         \<and> charts = [Graph bars,
                      Graph (Figure ''Processed vs Gap (TPD)''
                        [Pie [[Lit (proc_label sw_proc sw_gen)], [Lit ''Gap'']]
                             [proc_pie sw_proc sw_gen, gap_pie sw_proc sw_gen]] None)]
         \<and> (\<exists>labels. comp_pie = Figure ''Waste Composition (TPD)'' [Pie labels [pw, cd, ew, other]] None)"
  using assms
  by (auto simp: map_district_view_def pybind_eq_Inr split: prod.splits)

lemma map_district_view_not_placeholder:
  "map_district_view r n \<noteq> Inr click_prompt" "map_district_view r n \<noteq> Inr no_data"
  using map_district_view_cards [of r n click_prompt] map_district_view_cards [of r n no_data]
  by (auto simp: click_prompt_def no_data_def)

lemma no_data_not_prompt: "no_data \<noteq> click_prompt"
  by (simp add: no_data_def click_prompt_def)

lemma map_of_key: "map_of kvs k = Some v \<Longrightarrow> kvs \<noteq> [] \<and> k \<in> fst ` set kvs"
proof -
  assume "map_of kvs k = Some v"
  then have "(k, v) \<in> set kvs" by (rule map_of_SomeD)
  then show ?thesis by force
qed

lemma map_click_located:
  assumes "map_of click ''points'' = Some (JArr (JObj point # others))"
    and "map_of point ''location'' = Some (JStr name)"
  shows "map_update_dashboard df (JObj click) =
           (case match_row df name of [] \<Rightarrow> Inr no_data | r # _ \<Rightarrow> map_district_view r name)"
  using assms map_of_key [OF assms(1)]
  by (simp add: map_update_dashboard_def pybind_Inr)

text \<open>
  Claim C6. A click whose first point names a district that no row matches returns the
  payload of lines 107 and 108: the text \<open>No data for selected district\<close> with two empty
  figures. It is a returned value, not an exception, and it differs from the payload
  shown before any click. The callback has the click as its only argument besides the
  table, so nothing of an earlier selection can appear in the result.
\<close>

theorem unmatched_district_no_data:
  assumes "map_of click ''points'' = Some (JArr (JObj point # others))"
    and "map_of point ''location'' = Some (JStr name)"
    and "match_row df name = []"
  shows "map_update_dashboard df (JObj click) = Inr no_data
         \<and> no_data \<noteq> click_prompt
         \<and> no_data = ([Div ''No data for selected district''],
                       Figure ''Population Forecast'' [] None, [],
                       Figure ''Waste Composition'' [] None)"
  using map_click_located [OF assms(1,2)] assms(3) no_data_not_prompt
  by (simp add: no_data_def empty_figure_def)

theorem unmatched_district_no_data_witness:
  "map_of [(''points'', JArr [JObj [(''location'', JStr ''Atlantis'')]])] ''points''
     = Some (JArr (JObj [(''location'', JStr ''Atlantis'')] # []))
   \<and> map_of [(''location'', JStr ''Atlantis'')] ''location'' = Some (JStr ''Atlantis'')
   \<and> match_row sample_df ''Atlantis'' = []
   \<and> map_update_dashboard sample_df (click_on ''Atlantis'') = Inr no_data
   \<and> no_data \<noteq> click_prompt"
proof -
  have a: "map_of [(''points'', JArr [JObj [(''location'', JStr ''Atlantis'')]])] ''points''
     = Some (JArr (JObj [(''location'', JStr ''Atlantis'')] # []))" by simp
  have b: "map_of [(''location'', JStr ''Atlantis'')] ''location'' = Some (JStr ''Atlantis'')"
    by simp
  have c: "match_row sample_df ''Atlantis'' = []"
    by (simp add: match_row_def sample_df_def sample_districts norm_names)
  from unmatched_district_no_data [OF a b c] a b c show ?thesis
    by (simp add: click_on_def)
qed

text \<open>
  Claim C10. The guard of line 99 returns the prompt exactly when \<open>clickData\<close> is falsy
  or \<open>"points" not in clickData\<close> holds; for a dict that is: empty, or without the key
  \<open>points\<close>. A dict whose \<open>points\<close> is the empty list passes the guard, and
  \<open>clickData["points"][0]\<close> raises \<open>IndexError\<close>.
\<close>

theorem empty_points_index_error:
  "(map_update_dashboard df clickData = Inr click_prompt
      \<longleftrightarrow> \<not> truthy clickData \<or> py_in ''points'' clickData = Inr False)
   \<and> (map_update_dashboard df (JObj kvs) = Inr click_prompt
      \<longleftrightarrow> kvs = [] \<or> ''points'' \<notin> fst ` set kvs)
   \<and> map_update_dashboard df JNull = Inr click_prompt
   \<and> (map_of kvs ''points'' = Some (JArr []) \<longrightarrow>
        map_update_dashboard df (JObj kvs) = Inl IndexError)"
proof -
  have tail: "(case match_row df n of [] \<Rightarrow> Inr no_data | r # _ \<Rightarrow> map_district_view r n)
                \<noteq> Inr click_prompt" for n
    using no_data_not_prompt map_district_view_not_placeholder(1)
    by (simp split: list.splits)
  have inner: "pybind (getitem_key cd ''points'') (\<lambda>points.
          pybind (getitem_0 points) (\<lambda>point.
          pybind (getitem_key point ''location'') (\<lambda>location.
          pybind (str_receiver location) (\<lambda>district_name.
            case match_row df district_name of
              [] \<Rightarrow> Inr no_data
            | r # _ \<Rightarrow> map_district_view r district_name)))) \<noteq> Inr click_prompt" for cd
    using tail by (auto simp: pybind_eq_Inr)
  have a: "map_update_dashboard df cd = Inr click_prompt
      \<longleftrightarrow> \<not> truthy cd \<or> py_in ''points'' cd = Inr False" for cd
  proof (cases "truthy cd")
    case False
    then show ?thesis by (simp add: map_update_dashboard_def)
  next
    case True
    show ?thesis
    proof (cases "py_in ''points'' cd")
      case (Inl e)
      with True show ?thesis by (simp add: map_update_dashboard_def pybind_Inl)
    next
      case (Inr has)
      with True inner [of cd] show ?thesis
        by (cases has) (simp_all add: map_update_dashboard_def pybind_Inr)
    qed
  qed
  have b: "map_update_dashboard df (JObj kvs) = Inl IndexError"
    if "map_of kvs ''points'' = Some (JArr [])"
    using that map_of_key [OF that]
    by (simp add: map_update_dashboard_def pybind_Inr pybind_Inl)
  from a [of clickData] a [of "JObj kvs"] a [of JNull] b show ?thesis
    by auto
qed

theorem empty_points_index_error_witness:
  "map_of [(''points'', JArr [])] ''points'' = Some (JArr [])
   \<and> map_update_dashboard sample_df (JObj [(''points'', JArr [])]) = Inl IndexError
   \<and> map_update_dashboard sample_df (JObj [(''curveNumber'', JNum 0)]) = Inr click_prompt
   \<and> map_update_dashboard sample_df (JObj []) = Inr click_prompt"
proof -
  have a: "map_of [(''points'', JArr [])] ''points'' = Some (JArr [])" by simp
  from empty_points_index_error [of sample_df JNull "[(''points'', JArr [])]"] a
  have b: "map_update_dashboard sample_df (JObj [(''points'', JArr [])]) = Inl IndexError"
    by blast
  from empty_points_index_error [of sample_df JNull "[(''curveNumber'', JNum 0)]"]
  have c: "map_update_dashboard sample_df (JObj [(''curveNumber'', JNum 0)]) = Inr click_prompt"
    by simp
  from empty_points_index_error [of sample_df JNull "[]"]
  have d: "map_update_dashboard sample_df (JObj []) = Inr click_prompt"
    by simp
  from a b c d show ?thesis by blast
qed

subsection \<open>District names that differ in case or outer whitespace\<close>

lemma lower_char_idem: "lower_char (lower_char c) = lower_char c"
  by (auto simp: lower_char_def Let_def)

lemma lower_char_space: "isspace c \<Longrightarrow> lower_char c = c"
  by (auto simp: lower_char_def isspace_def Let_def)

lemma same_letter_lower: "same_letter c d \<Longrightarrow> lower_char c = lower_char d"
  by (auto simp: same_letter_def lower_char_idem)

lemma str_lower_variant: "list_all2 same_letter n n' \<Longrightarrow> str_lower n = str_lower n'"
  unfolding str_lower_def
  by (induction rule: list_all2_induct) (simp_all add: same_letter_lower)

lemma str_lower_spaces: "list_all isspace w \<Longrightarrow> str_lower w = w"
  unfolding str_lower_def
  by (induction w) (simp_all add: lower_char_space)

lemma str_lower_append: "str_lower (a @ b) = str_lower a @ str_lower b"
  by (simp add: str_lower_def)

lemma dropWhile_spaces: "list_all isspace w \<Longrightarrow> dropWhile isspace (w @ s) = dropWhile isspace s"
  by (induction w) simp_all

lemma str_strip_left: "list_all isspace w \<Longrightarrow> str_strip (w @ s) = str_strip s"
  by (simp add: str_strip_def dropWhile_spaces)

lemma str_strip_right:
  assumes "list_all isspace w"
  shows "str_strip (s @ w) = str_strip s"
proof (cases "list_all isspace s")
  case True
  with assms have "list_all isspace (s @ w)" by simp
  then have a: "dropWhile isspace (s @ w) = []" by (simp add: list_all_iff)
  from True have b: "dropWhile isspace s = []" by (simp add: list_all_iff)
  show ?thesis unfolding str_strip_def a b ..
next
  case False
  then obtain x where "x \<in> set s" "\<not> isspace x" by (auto simp: list_all_iff)
  then have "dropWhile isspace (s @ w) = dropWhile isspace s @ w"
    by (rule dropWhile_append1)
  moreover from assms have "list_all isspace (rev w)" by (simp add: list_all_iff)
  ultimately show ?thesis
    by (simp add: str_strip_def dropWhile_spaces)
qed

lemma normalise_variant:
  assumes "list_all isspace w1" "list_all isspace w2" "list_all2 same_letter n n'"
  shows "str_strip (str_lower (w1 @ n' @ w2)) = str_strip (str_lower n)"
proof -
  have "str_lower (w1 @ n' @ w2) = w1 @ str_lower n @ w2"
    using assms by (simp add: str_lower_append str_lower_spaces str_lower_variant)
  then show ?thesis
    using assms(1,2) str_strip_right [of w2 "str_lower n"]
    by (simp add: str_strip_left)
qed

lemma match_row_filter:
  "match_row df n =
     filter (\<lambda>r. \<exists>s. district r = VStr s \<and> str_strip (str_lower s) = str_strip (str_lower n)) df"
  unfolding match_row_def
  by (rule filter_cong) (auto split: pyval.splits)

lemma strasse_norm:
  "str_strip (str_lower (''Stra'' @ [CHR 0xDF] @ ''e'')) = ''stra'' @ [CHR 0xDF] @ ''e''"
  "str_strip (str_lower (''stra'' @ [CHR 0xDF] @ ''e'')) = ''stra'' @ [CHR 0xDF] @ ''e''"
  "str_strip (str_lower ''STRASSE'') = ''strasse''"
  "str_strip (str_lower ''UJJAIN'') = ''ujjain''"
  "str_strip (str_lower '' UJJAIN '') = ''ujjain''"
  "str_strip (str_lower ''ujjain'') = ''ujjain''"
  by code_simp+

lemma strasse_district: "district strasse = VStr (''Stra'' @ [CHR 0xDF] @ ''e'')"
  by (simp add: strasse_def make_row_def)

text \<open>
  Claim C7, as stated, fails on the code: the names are compared after \<open>lower()\<close>, which
  is not a case folding. For a district stored as Strasse with the sharp s, the clicked
  name in lower case selects the record, but its upper-case form \<open>STRASSE\<close> (what
  \<open>upper()\<close> returns for it) lowers to \<open>strasse\<close> with a double s and selects nothing.
\<close>

theorem sharp_s_counterexample:
  "match_row [strasse] (''stra'' @ [CHR 0xDF] @ ''e'') = [strasse]
   \<and> match_row [strasse] ''STRASSE'' = []
   \<and> map_update_dashboard [strasse] (click_on (''stra'' @ [CHR 0xDF] @ ''e''))
        = map_district_view strasse (''stra'' @ [CHR 0xDF] @ ''e'')
   \<and> map_district_view strasse (''stra'' @ [CHR 0xDF] @ ''e'') \<noteq> Inr no_data
   \<and> map_update_dashboard [strasse] (click_on ''STRASSE'') = Inr no_data"
proof -
  have a: "match_row [strasse] (''stra'' @ [CHR 0xDF] @ ''e'') = [strasse]"
    by (simp only: match_row_def filter.simps strasse_district pyval.case strasse_norm) simp
  have b: "match_row [strasse] ''STRASSE'' = []"
    by (simp only: match_row_def filter.simps strasse_district pyval.case strasse_norm) simp
  show ?thesis
    using map_district_view_not_placeholder(2)
    by (simp only: a b click_on_sample list.case) simp
qed

text \<open>
  Claim C7, amended. For names of code points below 256: a clicked name that differs
  from \<open>n\<close> only by leading or trailing whitespace and, character by character, by a
  letter replaced with its \<open>lower()\<close> partner selects the same rows as \<open>n\<close>. These are the
  rows whose District, lower-cased and stripped, equals \<open>n\<close> lower-cased and stripped,
  so every row stored under such a variant of \<open>n\<close> is selected, wherever it stands in
  the table. The callback derives its payload from the first of them, or returns the
  no-data payload. \<open>" Bhopal "\<close> and \<open>"bhopal"\<close> select the Bhopal row.
\<close>

theorem match_row_case_whitespace:
  assumes "list_all isspace w1" "list_all isspace w2" "list_all2 same_letter n n'"
  shows "match_row df (w1 @ n' @ w2) = match_row df n
         \<and> match_row df n =
             filter (\<lambda>r. \<exists>s. district r = VStr s
                          \<and> str_strip (str_lower s) = str_strip (str_lower n)) df
         \<and> (\<forall>r \<in> set df. \<forall>w3 w4 m.
               district r = VStr (w3 @ m @ w4) \<and> list_all isspace w3 \<and> list_all isspace w4
               \<and> list_all2 same_letter n m \<longrightarrow> r \<in> set (match_row df (w1 @ n' @ w2)))
         \<and> map_update_dashboard df (click_on (w1 @ n' @ w2)) =
             (case match_row df n of
                [] \<Rightarrow> Inr no_data
              | r # _ \<Rightarrow> map_district_view r (w1 @ n' @ w2))"
proof -
  have m: "match_row df (w1 @ n' @ w2) = match_row df n"
    unfolding match_row_def normalise_variant [OF assms] ..
  have r: "r \<in> set (match_row df n)"
    if "r \<in> set df" "district r = VStr (w3 @ m @ w4)" "list_all isspace w3"
      "list_all isspace w4" "list_all2 same_letter n m" for r w3 w4 m
    using that normalise_variant [of w3 w4 n m]
    by (simp add: match_row_filter)
  from m r show ?thesis
    by (auto simp: click_on_sample match_row_filter [symmetric])
qed

theorem match_row_case_whitespace_witness:
  "list_all isspace '' '' \<and> list_all2 same_letter ''ujjain'' ''UJJAIN''
   \<and> match_row sample_df ('' '' @ ''UJJAIN'' @ '' '') = match_row sample_df ''ujjain''
   \<and> match_row sample_df ''ujjain'' = [ujjain]
   \<and> match_row sample_df '' UJJAIN '' = [ujjain]
   \<and> list_all2 same_letter ''bhopal'' ''Bhopal''
   \<and> match_row sample_df '' Bhopal '' = match_row sample_df ''bhopal''
   \<and> match_row sample_df ''bhopal'' = [bhopal]"
proof -
  have a: "list_all isspace '' ''" by code_simp
  have b: "list_all2 same_letter ''ujjain'' ''UJJAIN''" by code_simp
  have b': "list_all2 same_letter ''bhopal'' ''Bhopal''" by code_simp
  have c: "match_row sample_df ''ujjain'' = [ujjain]"
    by (simp add: match_row_def sample_df_def sample_districts norm_names strasse_norm)
  have c': "match_row sample_df ''bhopal'' = [bhopal]"
    by (simp add: match_row_def sample_df_def sample_districts norm_names strasse_norm)
  from match_row_case_whitespace [OF a a b, of sample_df]
  have d: "match_row sample_df ('' '' @ ''UJJAIN'' @ '' '') = match_row sample_df ''ujjain''"
    by blast
  from match_row_case_whitespace [OF a a b', of sample_df]
  have d': "match_row sample_df ('' '' @ ''Bhopal'' @ '' '') = match_row sample_df ''bhopal''"
    by blast
  from a b b' c c' d d' show ?thesis by simp
qed

subsection \<open>The dropdown callback\<close>

lemma no_row_for_None: "filter (\<lambda>r. val_eq (district r) VNone) df = []"
  by (induction df) (auto simp: val_eq_def split: pyval.splits)

lemma app_no_match:
  assumes "filter (\<lambda>r. val_eq (district r) sel) df = []"
  shows "app_district_view df sel = Inl IndexError"
  using assms by (simp add: app_district_view_def iloc0_def pybind_Inl)

lemma app_missing_column:
  assumes "filter (\<lambda>r. val_eq (district r) sel) df = r # rs"
    and "cells r ''Sum of Census 2011 Population'' = None"
  shows "app_district_view df sel = Inl KeyError"
  using assms
  by (simp add: app_district_view_def iloc0_def safe_item_def row_item_def pybind_Inl pybind_Inr)

text \<open>
  Claim C8. Whatever exception the body of the \<open>try\<close> raises, the dropdown callback
  returns normally: it prints one line naming the exception and returns the card
  \<open>Error loading data\<close> with an empty figure and two empty lists. Without an exception
  nothing is printed and the derived payload is returned. An unknown district raises
  \<open>IndexError\<close> and an absent column \<open>KeyError\<close>; both end in the error payload.
\<close>

theorem app_callback_catches:
  "(app_district_view df sel = Inl e \<longrightarrow>
      app_update_dashboard df sel =
        ([CallbackError e], ([Div ''Error loading data''], Figure [] [] None, [], [])))
   \<and> (app_district_view df sel = Inr p \<longrightarrow> app_update_dashboard df sel = ([], p))
   \<and> (filter (\<lambda>r. val_eq (district r) sel) df = [] \<longrightarrow>
        app_update_dashboard df sel = ([CallbackError IndexError], error_payload))
   \<and> (filter (\<lambda>r. val_eq (district r) sel) df = r # rs
        \<and> cells r ''Sum of Census 2011 Population'' = None \<longrightarrow>
        app_update_dashboard df sel = ([CallbackError KeyError], error_payload))"
  using app_no_match [of sel df] app_missing_column [of sel df r rs]
  by (auto simp: app_update_dashboard_def error_payload_def)

theorem app_callback_catches_witness:
  "app_district_view sample_df (VStr ''Indore'') = Inl ValueError
   \<and> app_update_dashboard sample_df (VStr ''Indore'') =
        ([CallbackError ValueError], ([Div ''Error loading data''], Figure [] [] None, [], []))
   \<and> (\<exists>p. app_district_view sample_df (VStr ''Ujjain'') = Inr p
          \<and> app_update_dashboard sample_df (VStr ''Ujjain'') = ([], p))
   \<and> filter (\<lambda>r. val_eq (district r) (VStr ''Atlantis'')) sample_df = []
   \<and> app_update_dashboard sample_df (VStr ''Atlantis'') = ([CallbackError IndexError], error_payload)
   \<and> filter (\<lambda>r. val_eq (district r) (VStr ''Bhopal'')) [indore\<lparr>district := VStr ''Bhopal'', cells := Map.empty\<rparr>]
        = [indore\<lparr>district := VStr ''Bhopal'', cells := Map.empty\<rparr>]
   \<and> app_update_dashboard [indore\<lparr>district := VStr ''Bhopal'', cells := Map.empty\<rparr>] (VStr ''Bhopal'')
        = ([CallbackError KeyError], error_payload)"
proof -
  have i: "app_district_view sample_df (VStr ''Indore'') = Inl ValueError"
    by code_simp
  have "case app_district_view sample_df (VStr ''Ujjain'') of Inl e \<Rightarrow> False | Inr p \<Rightarrow> True"
    by code_simp
  then obtain p where u: "app_district_view sample_df (VStr ''Ujjain'') = Inr p"
    by (auto split: sum.splits)
  have a: "filter (\<lambda>r. val_eq (district r) (VStr ''Atlantis'')) sample_df = []"
    by (simp add: sample_df_def val_eq_def sample_districts)
  have b: "filter (\<lambda>r. val_eq (district r) (VStr ''Bhopal'')) [indore\<lparr>district := VStr ''Bhopal'', cells := Map.empty\<rparr>]
        = [indore\<lparr>district := VStr ''Bhopal'', cells := Map.empty\<rparr>]"
    "cells (indore\<lparr>district := VStr ''Bhopal'', cells := Map.empty\<rparr>) ''Sum of Census 2011 Population'' = None"
    by (simp_all add: val_eq_def)
  from app_callback_catches [of sample_df "VStr ''Indore''" ValueError] i
  have 1: "app_update_dashboard sample_df (VStr ''Indore'') =
        ([CallbackError ValueError], ([Div ''Error loading data''], Figure [] [] None, [], []))"
    by blast
  from app_callback_catches [of sample_df "VStr ''Ujjain''" _ p] u
  have 2: "app_update_dashboard sample_df (VStr ''Ujjain'') = ([], p)" by blast
  from app_callback_catches [of sample_df "VStr ''Atlantis''"] a
  have 3: "app_update_dashboard sample_df (VStr ''Atlantis'') = ([CallbackError IndexError], error_payload)"
    by blast
  from app_callback_catches [of "[indore\<lparr>district := VStr ''Bhopal'', cells := Map.empty\<rparr>]"
      "VStr ''Bhopal''" _ _ "indore\<lparr>district := VStr ''Bhopal'', cells := Map.empty\<rparr>" "[]"] b
  have 4: "app_update_dashboard [indore\<lparr>district := VStr ''Bhopal'', cells := Map.empty\<rparr>] (VStr ''Bhopal'')
        = ([CallbackError KeyError], error_payload)"
    by blast
  from i 1 2 3 4 a b(1) u show ?thesis by blast
qed

subsection \<open>The two states of the Binder\<close>

text \<open>
  Claim C9, as stated, fails for the dropdown dashboard. Its layout sets the dropdown's
  value to the first district of the table, so the Binder starts with a district
  selected; and a cleared dropdown (value \<open>None\<close>) matches no row, so the callback
  answers through its exception handler with \<open>Error loading data\<close>, not with a prompt.
\<close>

theorem app_starts_selected_counterexample:
  "app_initial_value sample_df = Inr (VStr ''Bhopal'')
   \<and> VStr ''Bhopal'' \<noteq> VNone
   \<and> app_update_dashboard sample_df VNone =
        ([CallbackError IndexError], ([Div ''Error loading data''], Figure [] [] None, [], []))"
proof -
  have "app_district_view sample_df VNone = Inl IndexError"
    by (rule app_no_match) (rule no_row_for_None)
  then show ?thesis
    by (simp add: app_initial_value_def iloc0_def sample_df_def pybind_Inr sample_districts
        app_update_dashboard_def error_payload_def)
qed

text \<open>
  Claim C9, amended. Each callback has one input, the current selection, and its result
  is a function of the table and that input. In the map dashboard the selection starts
  as \<open>None\<close>, and while it is \<open>None\<close> the callback returns the prompt
  \<open>Click a district on the map\<close> with two empty figures and no bar or pie row, which no
  district's payload equals. In the dropdown dashboard the selection starts as the
  first district of the table (the layout fails on an empty table), and the value
  \<open>None\<close> is answered with the error payload after \<open>IndexError\<close> is logged.
\<close>

theorem binder_initial_states:
  "map_update_dashboard df map_initial_clickData = Inr click_prompt
   \<and> click_prompt = ([Div ''Click a district on the map''],
                      Figure ''Population Forecast'' [] None, [],
                      Figure ''Waste Composition'' [] None)
   \<and> (\<forall>r n. map_district_view r n \<noteq> Inr click_prompt)
   \<and> (df = r # rs \<longrightarrow> app_initial_value df = Inr (district r))
   \<and> (df = [] \<longrightarrow> app_initial_value df = Inl IndexError)
   \<and> app_update_dashboard df VNone = ([CallbackError IndexError], error_payload)"
proof -
  have "app_district_view df VNone = Inl IndexError"
    by (rule app_no_match) (rule no_row_for_None)
  then show ?thesis
    using map_district_view_not_placeholder(1)
    by (auto simp: map_update_dashboard_def map_initial_clickData_def click_prompt_def
        empty_figure_def app_initial_value_def iloc0_def pybind_Inr pybind_Inl
        app_update_dashboard_def)
qed

theorem binder_initial_states_witness:
  "sample_df = bhopal # [indore, ujjain]
   \<and> app_initial_value sample_df = Inr (VStr ''Bhopal'')
   \<and> app_initial_value [] = Inl IndexError
   \<and> map_update_dashboard sample_df JNull = Inr click_prompt
   \<and> app_update_dashboard sample_df VNone = ([CallbackError IndexError], error_payload)"
proof -
  have a: "sample_df = bhopal # [indore, ujjain]" by (simp add: sample_df_def)
  from binder_initial_states [of sample_df bhopal "[indore, ujjain]"] a
  have b: "app_initial_value sample_df = Inr (VStr ''Bhopal'')"
    "map_update_dashboard sample_df JNull = Inr click_prompt"
    "app_update_dashboard sample_df VNone = ([CallbackError IndexError], error_payload)"
    by (simp_all add: sample_districts map_initial_clickData_def)
  from binder_initial_states [of "[]"]
  have c: "app_initial_value [] = Inl IndexError" by simp
  from a b c show ?thesis by blast
qed

end
